theory Spec2Isabelle
  imports Complex_Main
begin

section \<open>JavaScript values\<close>

text \<open>
  The wallet of \<^verbatim>\<open>src/App.js\<close> keeps its records as plain JavaScript objects, and the
  records that arrive through \<^verbatim>\<open>loadKeypairs\<close> hold whatever the backup file holds.
  A field is therefore a JavaScript value. A number is an IEEE double: \<open>NaN\<close>, one of
  the two infinities, or a finite double, which is held as the real number it stands for.
  Every operation that computes a number rounds its exact result to the nearest double
  (\<open>round_double\<close> below); the two zeros are not told apart. Object- and array-valued
  fields are outside the model.
\<close>

datatype number = NaN | Fin real | PosInf | NegInf

datatype jsval = Undefined | Null | Bool bool | Number number | String string

type_synonym bytes = "nat list"

text \<open>\<^verbatim>\<open>!v\<close> is \<open>\<not> truthy v\<close>.\<close>

fun truthy :: "jsval \<Rightarrow> bool" where
  "truthy Undefined = False"
| "truthy Null = False"
| "truthy (Bool b) = b"
| "truthy (Number NaN) = False"
| "truthy (Number (Fin r)) = (r \<noteq> 0)"
| "truthy (Number PosInf) = True"
| "truthy (Number NegInf) = True"
| "truthy (String s) = (s \<noteq> [])"

text \<open>\<^verbatim>\<open>a === b\<close>: equal values of the same type, and \<open>NaN\<close> equal to nothing.\<close>

definition strict_eq :: "jsval \<Rightarrow> jsval \<Rightarrow> bool" where
  "strict_eq a b = (a = b \<and> a \<noteq> Number NaN)"

definition isNaN :: "number \<Rightarrow> bool" where
  "isNaN n = (n = NaN)"

text \<open>\<^verbatim>\<open>a < b\<close> and \<^verbatim>\<open>a <= b\<close> on numbers: false as soon as one side is \<open>NaN\<close>.\<close>

fun num_lt :: "number \<Rightarrow> number \<Rightarrow> bool" where
  "num_lt NaN _ = False"
| "num_lt _ NaN = False"
| "num_lt (Fin a) (Fin b) = (a < b)"
| "num_lt (Fin _) PosInf = True"
| "num_lt NegInf (Fin _) = True"
| "num_lt NegInf PosInf = True"
| "num_lt _ _ = False"

fun num_le :: "number \<Rightarrow> number \<Rightarrow> bool" where
  "num_le NaN _ = False"
| "num_le _ NaN = False"
| "num_le (Fin a) (Fin b) = (a \<le> b)"
| "num_le NegInf _ = True"
| "num_le _ PosInf = True"
| "num_le _ _ = False"

text \<open>\<^verbatim>\<open>a > b\<close> is \<^verbatim>\<open>b < a\<close>.\<close>

definition num_gt :: "number \<Rightarrow> number \<Rightarrow> bool" where
  "num_gt a b = num_lt b a"

fun num_neg :: "number \<Rightarrow> number" where
  "num_neg NaN = NaN"
| "num_neg (Fin a) = Fin (- a)"
| "num_neg PosInf = NegInf"
| "num_neg NegInf = PosInf"

subsection \<open>Rounding to a double\<close>

text \<open>The number of binary digits of a natural number.\<close>

function bit_length :: "nat \<Rightarrow> nat" where
  "bit_length n = (if n = 0 then 0 else Suc (bit_length (n div 2)))"
  by pat_completeness auto
termination
  by (relation "measure (\<lambda>n. n)") auto

declare bit_length.simps [simp del]

text \<open>For \<open>x > 0\<close>, the exponent \<open>e\<close> with \<open>2\<^sup>e \<le> x < 2\<^sup>e\<^sup>+\<^sup>1\<close>.\<close>

definition binary_exponent :: "real \<Rightarrow> int" where
  "binary_exponent x =
     (if 1 \<le> x then int (bit_length (nat \<lfloor>x\<rfloor>)) - 1
      else - int (bit_length (nat \<lceil>1 / x\<rceil> - 1)))"

text \<open>The nearest integer, and the even one of the two when both are equally near.\<close>

definition round_half_even :: "real \<Rightarrow> int" where
  "round_half_even q =
     (if q - of_int \<lfloor>q\<rfloor> < 1 / 2 then \<lfloor>q\<rfloor>
      else if 1 / 2 < q - of_int \<lfloor>q\<rfloor> then \<lfloor>q\<rfloor> + 1
      else if even \<lfloor>q\<rfloor> then \<lfloor>q\<rfloor> else \<lfloor>q\<rfloor> + 1)"

text \<open>
  The double nearest to \<open>x > 0\<close>: a multiple of the unit in the last place, which is
  \<open>2\<^sup>e\<^sup>-\<^sup>5\<^sup>2\<close> for a significand of 53 bits and never less than \<open>2\<^sup>-\<^sup>1\<^sup>0\<^sup>7\<^sup>4\<close>; a result of
  \<open>2\<^sup>1\<^sup>0\<^sup>2\<^sup>4\<close> or more is infinite.
\<close>

definition round_positive :: "real \<Rightarrow> number" where
  "round_positive x =
     (let e = max (binary_exponent x) (- 1022);
          ulp = power_int 2 (e - 52);
          r = of_int (round_half_even (x / ulp)) * ulp
      in if power_int 2 1024 \<le> r then PosInf else Fin r)"

definition round_double :: "real \<Rightarrow> number" where
  "round_double x =
     (if x = 0 then Fin 0
      else if 0 < x then round_positive x
      else num_neg (round_positive (- x)))"

subsection \<open>Arithmetic\<close>

fun num_add :: "number \<Rightarrow> number \<Rightarrow> number" where
  "num_add NaN _ = NaN"
| "num_add _ NaN = NaN"
| "num_add (Fin a) (Fin b) = round_double (a + b)"
| "num_add PosInf NegInf = NaN"
| "num_add NegInf PosInf = NaN"
| "num_add PosInf _ = PosInf"
| "num_add _ PosInf = PosInf"
| "num_add NegInf _ = NegInf"
| "num_add _ NegInf = NegInf"

text \<open>The sign of a product or quotient with an infinite or zero operand.\<close>

definition signed_inf :: "bool \<Rightarrow> number" where
  "signed_inf positive = (if positive then PosInf else NegInf)"

fun num_mul :: "number \<Rightarrow> number \<Rightarrow> number" where
  "num_mul NaN _ = NaN"
| "num_mul _ NaN = NaN"
| "num_mul (Fin a) (Fin b) = round_double (a * b)"
| "num_mul (Fin a) PosInf = (if a = 0 then NaN else signed_inf (0 < a))"
| "num_mul (Fin a) NegInf = (if a = 0 then NaN else signed_inf (a < 0))"
| "num_mul PosInf (Fin b) = (if b = 0 then NaN else signed_inf (0 < b))"
| "num_mul NegInf (Fin b) = (if b = 0 then NaN else signed_inf (b < 0))"
| "num_mul PosInf PosInf = PosInf"
| "num_mul NegInf NegInf = PosInf"
| "num_mul PosInf NegInf = NegInf"
| "num_mul NegInf PosInf = NegInf"

fun num_div :: "number \<Rightarrow> number \<Rightarrow> number" where
  "num_div NaN _ = NaN"
| "num_div _ NaN = NaN"
| "num_div (Fin a) (Fin b) =
     (if b = 0 then (if a = 0 then NaN else signed_inf (0 < a)) else round_double (a / b))"
| "num_div (Fin _) PosInf = Fin 0"
| "num_div (Fin _) NegInf = Fin 0"
| "num_div PosInf (Fin b) = signed_inf (0 \<le> b)"
| "num_div NegInf (Fin b) = signed_inf (b < 0)"
| "num_div _ _ = NaN"

definition LAMPORTS_PER_SOL :: number where
  "LAMPORTS_PER_SOL = Fin 1000000000"

subsection \<open>parseFloat\<close>

text \<open>
  \<^verbatim>\<open>parseFloat\<close> skips leading white space and reads the longest prefix that is a
  decimal literal: an optional sign, then \<^verbatim>\<open>Infinity\<close> or digits with an optional
  fraction and an optional exponent. No such prefix gives \<open>NaN\<close>. The result is the
  double nearest to the value that the literal denotes. Characters are the code units
  below 256.
\<close>

definition is_digit :: "char \<Rightarrow> bool" where
  "is_digit c = (c \<in> set ''0123456789'')"

definition is_space :: "char \<Rightarrow> bool" where
  "is_space c = (of_char c \<in> set [9, 10, 11, 12, 13, 32, 160 :: nat])"

definition digit_val :: "char \<Rightarrow> nat" where
  "digit_val c = of_char c - 48"

definition digits_val :: "string \<Rightarrow> nat" where
  "digits_val ds = foldl (\<lambda>n c. 10 * n + digit_val c) 0 ds"

text \<open>The exponent part, read only when a digit follows the \<^verbatim>\<open>e\<close> and its sign.\<close>

definition signed_digits :: "string \<Rightarrow> int" where
  "signed_digits s =
     (case s of
        [] \<Rightarrow> 0
      | c # r \<Rightarrow>
          if c = CHR ''-'' then - int (digits_val (takeWhile is_digit r))
          else if c = CHR ''+'' then int (digits_val (takeWhile is_digit r))
          else int (digits_val (takeWhile is_digit s)))"

definition parse_exponent :: "string \<Rightarrow> int" where
  "parse_exponent s =
     (case s of
        [] \<Rightarrow> 0
      | c # r \<Rightarrow> if c = CHR ''e'' \<or> c = CHR ''E'' then signed_digits r else 0)"

text \<open>The value that an unsigned literal denotes, before rounding.\<close>

definition parse_unsigned :: "string \<Rightarrow> number" where
  "parse_unsigned s =
     (if take 8 s = ''Infinity'' then PosInf
      else
        let ip = takeWhile is_digit s;
            r1 = dropWhile is_digit s;
            fp = (case r1 of [] \<Rightarrow> [] | c # r \<Rightarrow>
                    if c = CHR ''.'' then takeWhile is_digit r else []);
            r2 = (case r1 of [] \<Rightarrow> [] | c # r \<Rightarrow>
                    if c = CHR ''.'' then dropWhile is_digit r else r1)
        in if ip = [] \<and> fp = [] then NaN
           else Fin ((real (digits_val ip) + real (digits_val fp) / 10 ^ length fp)
                     * power_int 10 (parse_exponent r2)))"

text \<open>The value that the text denotes as a decimal, before rounding.\<close>

definition decimal_value :: "string \<Rightarrow> number" where
  "decimal_value s =
     (case dropWhile is_space s of
        [] \<Rightarrow> NaN
      | c # r \<Rightarrow>
          if c = CHR ''-'' then num_neg (parse_unsigned r)
          else if c = CHR ''+'' then parse_unsigned r
          else parse_unsigned (c # r))"

fun round_number :: "number \<Rightarrow> number" where
  "round_number (Fin r) = round_double r"
| "round_number n = n"

definition parseFloat_string :: "string \<Rightarrow> number" where
  "parseFloat_string s = round_number (decimal_value s)"

text \<open>
  \<^verbatim>\<open>parseFloat\<close> converts its argument to a string first. A number printed and read
  again is the same number; \<^verbatim>\<open>undefined\<close>, \<^verbatim>\<open>null\<close>, \<^verbatim>\<open>true\<close> and \<^verbatim>\<open>false\<close>
  print as words that are no decimal literal.
\<close>

fun parseFloat :: "jsval \<Rightarrow> number" where
  "parseFloat (String s) = parseFloat_string s"
| "parseFloat (Number n) = n"
| "parseFloat _ = NaN"

section \<open>The data model\<close>

text \<open>
  A record of the \<^verbatim>\<open>addresses\<close> array. The five fields are the ones the source reads;
  a field the object does not have is \<open>Undefined\<close>. The field \<^verbatim>\<open>id\<close> is written
  \<open>id'\<close>.
\<close>

record keypair_record =
  id' :: jsval
  publicKey :: jsval
  privateKey :: jsval
  showPrivate :: jsval
  balance :: jsval

record transfer_form =
  fromId :: string
  toPubkey :: string
  amount :: string

text \<open>The three \<^verbatim>\<open>useState\<close> cells of the component.\<close>

record app_state =
  addresses :: "keypair_record list"
  faucetAmount :: string
  transferData :: transfer_form

definition initial_state :: app_state where
  "initial_state =
     \<lparr>addresses = [], faucetAmount = ''1'',
      transferData = \<lparr>fromId = [], toPubkey = [], amount = []\<rparr>\<rparr>"

section \<open>The library and the ledger\<close>

record keypair =
  kp_publicKey :: bytes
  kp_secretKey :: bytes

record transaction =
  instruction :: bytes
  feePayer :: bytes
  recentBlockhash :: string

text \<open>
  The functions of \<^verbatim>\<open>@solana/web3.js\<close> and \<^verbatim>\<open>bs58\<close> that the component calls, and
  the engine's \<^verbatim>\<open>Number.prototype.toString\<close>. They are parameters of the model: every
  theorem holds for every library. A call that throws returns \<open>Inl\<close> with the message.
\<close>

record library =
  Number_toString :: "number \<Rightarrow> string"
  PublicKey_new :: "jsval \<Rightarrow> string + bytes"
  isOnCurve :: "bytes \<Rightarrow> bool"
  bs58_decode :: "jsval \<Rightarrow> string + bytes"
  fromSecretKey :: "bytes \<Rightarrow> string + keypair"
  SystemProgram_transfer :: "bytes \<Rightarrow> bytes \<Rightarrow> number \<Rightarrow> string + bytes"
  sign_serialize :: "transaction \<Rightarrow> keypair \<Rightarrow> string + bytes"

text \<open>
  What the confirmation promise does: the time in milliseconds after which it settles
  (\<open>None\<close>: never), and how: rejected with a message, or resolved with the text of a
  truthy \<^verbatim>\<open>value.err\<close> (\<open>Some\<close>) or without one (\<open>None\<close>).
\<close>

record confirm_reply =
  settles_after :: "nat option"
  settlement :: "string + string option"

text \<open>
  The replies of the RPC node behind \<^verbatim>\<open>connection\<close>, one per method. A rejected
  promise is \<open>Inl\<close> with the message. Every theorem holds for every ledger.
\<close>

record ledger =
  getBalance_reply :: "bytes \<Rightarrow> string + number"
  getLatestBlockhash_reply :: "string + (string \<times> number)"
  sendRawTransaction_reply :: "bytes \<Rightarrow> string + string"
  confirmTransaction_reply :: "string \<Rightarrow> confirm_reply"
  requestAirdrop_reply :: "bytes \<Rightarrow> number \<Rightarrow> string + string"

text \<open>
  Everything an operation does that leaves the component, in the order it happens:
  dialogs, error logs, library calls and RPC calls. \<^verbatim>\<open>console.log\<close> lines are left out.
\<close>

datatype event =
    Alert string
  | ConsoleError string string
  | NewPublicKey jsval
  | IsOnCurve bytes
  | Bs58Decode jsval
  | FromSecretKey bytes
  | SystemTransfer bytes bytes number
  | SignSerialize transaction
  | GetBalance bytes
  | GetLatestBlockhash
  | SendRawTransaction bytes
  | ConfirmTransaction string
  | RequestAirdrop bytes number

text \<open>The calls that go to the network.\<close>

fun is_network :: "event \<Rightarrow> bool" where
  "is_network (GetBalance _) = True"
| "is_network GetLatestBlockhash = True"
| "is_network (SendRawTransaction _) = True"
| "is_network (ConfirmTransaction _) = True"
| "is_network (RequestAirdrop _ _) = True"
| "is_network _ = False"

section \<open>The address book\<close>

text \<open>
  \<^verbatim>\<open>createSolanaAddress\<close>: the generated key pair, already encoded, and the reading of
  \<^verbatim>\<open>Date.now()\<close> are inputs.
\<close>

definition createSolanaAddress :: "string \<Rightarrow> string \<Rightarrow> nat \<Rightarrow> app_state \<Rightarrow> app_state" where
  "createSolanaAddress pk secretKeyBase58 now st =
     st\<lparr>addresses := addresses st @
        [\<lparr>id' = Number (Fin (real now)), publicKey = String pk,
          privateKey = String secretKeyBase58, showPrivate = Bool False,
          balance = Number (Fin 0)\<rparr>]\<rparr>"

definition deleteAddress :: "jsval \<Rightarrow> app_state \<Rightarrow> app_state" where
  "deleteAddress i st =
     st\<lparr>addresses := filter (\<lambda>addr. \<not> strict_eq (id' addr) i) (addresses st)\<rparr>"

definition togglePrivateKey :: "jsval \<Rightarrow> app_state \<Rightarrow> app_state" where
  "togglePrivateKey i st =
     st\<lparr>addresses :=
        map (\<lambda>addr. if strict_eq (id' addr) i
                    then addr\<lparr>showPrivate := Bool (\<not> truthy (showPrivate addr))\<rparr>
                    else addr)
            (addresses st)\<rparr>"

section \<open>Balance refresh\<close>

text \<open>
  \<^verbatim>\<open>getBalance\<close> catches whatever fails, logs it and returns 0. The result is what
  happens before the function first waits (the constructor, with its error when it
  throws, and the request to the node), what happens when the request has settled (the
  error of a rejected request), and the number returned.
\<close>

definition getBalance ::
  "library \<Rightarrow> ledger \<Rightarrow> jsval \<Rightarrow> event list \<times> event list \<times> number" where
  "getBalance lib lg publicKeyString =
     (case PublicKey_new lib publicKeyString of
        Inl err \<Rightarrow>
          ([NewPublicKey publicKeyString, ConsoleError ''Error getting balance:'' err], [],
           Fin 0)
      | Inr pk \<Rightarrow>
          (case getBalance_reply lg pk of
             Inl err \<Rightarrow>
               ([NewPublicKey publicKeyString, GetBalance pk],
                [ConsoleError ''Error getting balance:'' err], Fin 0)
           | Inr bal \<Rightarrow> ([NewPublicKey publicKeyString, GetBalance pk], [], bal)))"

text \<open>
  \<^verbatim>\<open>refreshBalance\<close> maps over the whole array; every record with the id is looked up
  and rewritten. \<^verbatim>\<open>Promise.all\<close> starts the lookups of all such records, in the order
  of the array, before any of the requests settles; the settled requests are listed in
  the order of the array as well.
\<close>

fun refresh_records ::
  "library \<Rightarrow> ledger \<Rightarrow> jsval \<Rightarrow> keypair_record list
   \<Rightarrow> event list \<times> event list \<times> keypair_record list" where
  "refresh_records lib lg i [] = ([], [], [])"
| "refresh_records lib lg i (addr # rest) =
     (if strict_eq (id' addr) i then
        (let (started, settled, balanceLamports) = getBalance lib lg (publicKey addr);
             (evs, late, rest') = refresh_records lib lg i rest
         in (started @ evs, settled @ late,
             addr\<lparr>balance := Number (num_div balanceLamports LAMPORTS_PER_SOL)\<rparr> # rest'))
      else
        (let (evs, late, rest') = refresh_records lib lg i rest in (evs, late, addr # rest')))"

definition refreshBalance :: "library \<Rightarrow> ledger \<Rightarrow> jsval \<Rightarrow> app_state \<Rightarrow> event list \<times> app_state" where
  "refreshBalance lib lg i st =
     (let (evs, late, updatedAddresses) = refresh_records lib lg i (addresses st)
      in (evs @ late, st\<lparr>addresses := updatedAddresses\<rparr>))"

section \<open>The faucet\<close>

text \<open>
  An operation that awaits a promise which never settles never returns: \<open>Pending\<close>.
  Only the confirmation promise is given that possibility; the other RPC calls resolve
  or reject.
\<close>

datatype 'a completion = Done 'a | Pending

definition airdrop_failed :: "event list \<Rightarrow> string \<Rightarrow> app_state \<Rightarrow> event list \<times> app_state completion" where
  "airdrop_failed evs err st =
     (evs @ [ConsoleError ''Error in airdrop:'' err, Alert (''Airdrop failed! '' @ err)], Done st)"

text \<open>
  \<^verbatim>\<open>requestAirdrop\<close>. The confirmation is awaited without a timer, and its resolved
  value is not read.
\<close>

definition requestAirdrop ::
  "library \<Rightarrow> ledger \<Rightarrow> jsval \<Rightarrow> app_state \<Rightarrow> event list \<times> app_state completion" where
  "requestAirdrop lib lg i st =
     (case find (\<lambda>item. strict_eq (id' item) i) (addresses st) of
        None \<Rightarrow> ([], Done st)
      | Some targetAddr \<Rightarrow>
          (case PublicKey_new lib (publicKey targetAddr) of
             Inl err \<Rightarrow> airdrop_failed [NewPublicKey (publicKey targetAddr)] err st
           | Inr pk \<Rightarrow>
               let requestedAmount = parseFloat (String (faucetAmount st)) in
               if num_gt requestedAmount (Fin 2) then
                 ([NewPublicKey (publicKey targetAddr),
                   Alert ''Maximum airdrop amount is 2 SOL on testnet''], Done st)
               else
                 let lamports = num_mul requestedAmount LAMPORTS_PER_SOL;
                     evs1 = [NewPublicKey (publicKey targetAddr), RequestAirdrop pk lamports]
                 in (case requestAirdrop_reply lg pk lamports of
                       Inl err \<Rightarrow> airdrop_failed evs1 err st
                     | Inr signature \<Rightarrow>
                         let c = confirmTransaction_reply lg signature;
                             evs2 = evs1 @ [ConfirmTransaction signature]
                         in (case settles_after c of
                               None \<Rightarrow> (evs2, Pending)
                             | Some t \<Rightarrow>
                                 (case settlement c of
                                    Inl err \<Rightarrow> airdrop_failed evs2 err st
                                  | Inr _ \<Rightarrow>
                                      let (evr, st') = refreshBalance lib lg i st
                                      in (evs2 @ [Alert (''Airdrop successful! Signature: '' @ signature)]
                                            @ evr, Done st'))))))"

section \<open>The transfer\<close>

text \<open>
  \<^verbatim>\<open>item.id.toString()\<close>: a \<^verbatim>\<open>TypeError\<close> on \<^verbatim>\<open>undefined\<close> and \<^verbatim>\<open>null\<close>.
\<close>

fun toString :: "library \<Rightarrow> jsval \<Rightarrow> string + string" where
  "toString lib Undefined = Inl ''Cannot read properties of undefined''"
| "toString lib Null = Inl ''Cannot read properties of null''"
| "toString lib (Bool b) = Inr (if b then ''true'' else ''false'')"
| "toString lib (Number n) = Inr (Number_toString lib n)"
| "toString lib (String s) = Inr s"

text \<open>\<^verbatim>\<open>addresses.find((item) => item.id.toString() === fromId)\<close>\<close>

fun find_from :: "library \<Rightarrow> string \<Rightarrow> keypair_record list \<Rightarrow> string + keypair_record option" where
  "find_from lib f [] = Inr None"
| "find_from lib f (item # rest) =
     (case toString lib (id' item) of
        Inl err \<Rightarrow> Inl err
      | Inr s \<Rightarrow> if s = f then Inr (Some item) else find_from lib f rest)"

text \<open>The \<^verbatim>\<open>catch\<close> block of \<^verbatim>\<open>transferSOL\<close>.\<close>

definition transfer_failed :: "event list \<Rightarrow> string \<Rightarrow> app_state \<Rightarrow> event list \<times> app_state" where
  "transfer_failed evs err st =
     (evs @ [ConsoleError ''Error transferring SOL:'' err, Alert (''Transfer failed: '' @ err)], st)"

definition confirmation_timeout :: nat where
  "confirmation_timeout = 30000"

text \<open>
  The confirmation is started before the timer is set, so a confirmation that settles at
  the very millisecond at which the timer fires is still the first of the two.
\<close>

definition resolves_within_timeout :: "confirm_reply \<Rightarrow> bool" where
  "resolves_within_timeout c =
     (case settles_after c of None \<Rightarrow> False | Some t \<Rightarrow> t \<le> confirmation_timeout)"

text \<open>
  \<^verbatim>\<open>Promise.race\<close> of the confirmation against the timer: the confirmation wins when
  it settles before the timer fires, otherwise the race rejects with the timer's error.
\<close>

definition race_confirmation :: "confirm_reply \<Rightarrow> string + string option" where
  "race_confirmation c =
     (if resolves_within_timeout c then settlement c
      else Inl ''Transaction confirmation timeout'')"

text \<open>
  From the blockhash on: bind it, sign, serialize, send, wait for the confirmation,
  and on success refresh the sender's balance and clear the form.
\<close>

definition submit_transfer ::
  "library \<Rightarrow> ledger \<Rightarrow> app_state \<Rightarrow> keypair_record \<Rightarrow> keypair \<Rightarrow> bytes \<Rightarrow> event list
   \<Rightarrow> event list \<times> app_state" where
  "submit_transfer lib lg st fromAddr fromKeypair instr evs1 =
     (case getLatestBlockhash_reply lg of
        Inl err \<Rightarrow> transfer_failed (evs1 @ [GetLatestBlockhash]) err st
      | Inr (blockhash, lastValidBlockHeight) \<Rightarrow>
          let tx = \<lparr>instruction = instr, feePayer = kp_publicKey fromKeypair,
                    recentBlockhash = blockhash\<rparr>;
              evs2 = evs1 @ [GetLatestBlockhash, SignSerialize tx]
          in (case sign_serialize lib tx fromKeypair of
                Inl err \<Rightarrow> transfer_failed evs2 err st
              | Inr raw \<Rightarrow>
                  (case sendRawTransaction_reply lg raw of
                     Inl err \<Rightarrow> transfer_failed (evs2 @ [SendRawTransaction raw]) err st
                   | Inr signature \<Rightarrow>
                       let evs3 = evs2 @ [SendRawTransaction raw, ConfirmTransaction signature]
                       in (case race_confirmation (confirmTransaction_reply lg signature) of
                             Inl err \<Rightarrow> transfer_failed evs3 err st
                           | Inr (Some e) \<Rightarrow>
                               transfer_failed evs3 (''Transaction failed: '' @ e) st
                           | Inr None \<Rightarrow>
                               let (evr, st') = refreshBalance lib lg (id' fromAddr) st
                               in (evs3
                                     @ [Alert (''Transfer successful! Transaction signature: ''
                                               @ signature)]
                                     @ evr,
                                   st'\<lparr>transferData :=
                                         \<lparr>fromId = [], toPubkey = [], amount = []\<rparr>\<rparr>)))))"

text \<open>Decode the sender's secret, derive the key pair and build the transfer instruction.\<close>

definition construct_transfer ::
  "library \<Rightarrow> ledger \<Rightarrow> app_state \<Rightarrow> keypair_record \<Rightarrow> bytes \<Rightarrow> number \<Rightarrow> event list
   \<Rightarrow> event list \<times> app_state" where
  "construct_transfer lib lg st fromAddr toPublicKey transferAmount evs0 =
     (case bs58_decode lib (privateKey fromAddr) of
        Inl err \<Rightarrow> transfer_failed (evs0 @ [Bs58Decode (privateKey fromAddr)]) err st
      | Inr secretKey \<Rightarrow>
          (case fromSecretKey lib secretKey of
             Inl err \<Rightarrow>
               transfer_failed
                 (evs0 @ [Bs58Decode (privateKey fromAddr), FromSecretKey secretKey]) err st
           | Inr fromKeypair \<Rightarrow>
               let lamports = num_mul transferAmount LAMPORTS_PER_SOL;
                   evs1 = evs0 @ [Bs58Decode (privateKey fromAddr), FromSecretKey secretKey,
                                  SystemTransfer (kp_publicKey fromKeypair) toPublicKey lamports]
               in (case SystemProgram_transfer lib (kp_publicKey fromKeypair) toPublicKey lamports of
                     Inl err \<Rightarrow> transfer_failed evs1 err st
                   | Inr instr \<Rightarrow> submit_transfer lib lg st fromAddr fromKeypair instr evs1)))"

text \<open>The literal \<^verbatim>\<open>0.000005\<close> of the source.\<close>

definition FEE_RESERVE :: number where
  "FEE_RESERVE = round_double (5 / 1000000)"

text \<open>\<^verbatim>\<open>transferSOL\<close>, from the form in \<^verbatim>\<open>transferData\<close>.\<close>

definition transferSOL :: "library \<Rightarrow> ledger \<Rightarrow> app_state \<Rightarrow> event list \<times> app_state" where
  "transferSOL lib lg st =
     (let f = fromId (transferData st);
          dest = toPubkey (transferData st);
          amt = amount (transferData st)
      in if f = [] \<or> dest = [] \<or> amt = [] then
           ([Alert ''Please fill in all transfer details''], st)
         else
           (case find_from lib f (addresses st) of
              Inl err \<Rightarrow> transfer_failed [] err st
            | Inr None \<Rightarrow> ([Alert ''Invalid From address selection.''], st)
            | Inr (Some fromAddr) \<Rightarrow>
                let transferAmount = parseFloat (String amt) in
                if isNaN transferAmount \<or> num_le transferAmount (Fin 0) then
                  ([Alert ''Please enter a valid positive amount''], st)
                else
                  let senderBalance = parseFloat (balance fromAddr) in
                  if num_lt senderBalance (num_add transferAmount FEE_RESERVE) then
                    ([Alert ''Insufficient balance. Please ensure you have enough SOL for transfer and fees.''], st)
                  else
                    (case PublicKey_new lib (String dest) of
                       Inl err \<Rightarrow>
                         ([NewPublicKey (String dest),
                           Alert ''Invalid destination address format''], st)
                     | Inr toPublicKey \<Rightarrow>
                         if \<not> isOnCurve lib toPublicKey then
                           ([NewPublicKey (String dest), IsOnCurve toPublicKey,
                             Alert ''Invalid destination address''], st)
                         else
                           construct_transfer lib lg st fromAddr toPublicKey transferAmount
                             [NewPublicKey (String dest), IsOnCurve toPublicKey])))"

section \<open>Loading a backup\<close>

text \<open>
  What \<^verbatim>\<open>JSON.parse\<close> made of the file: it threw, or returned something that is no
  array, or an array. An element of the array is \<^verbatim>\<open>null\<close>, or a number, string or
  boolean (none of which has the three properties), or an object.
\<close>

datatype entry = NullEntry | Primitive | ObjectEntry keypair_record

datatype parsed = SyntaxError string | NotArray | Array "entry list"

text \<open>
  The body of the \<^verbatim>\<open>forEach\<close>: the message it throws, or the record. The error thrown
  for a wrong length is caught by the \<^verbatim>\<open>catch\<close> around the decoding and replaced.
\<close>

fun validate_entry :: "library \<Rightarrow> entry \<Rightarrow> event list \<times> (string + keypair_record)" where
  "validate_entry lib NullEntry = ([], Inl ''Cannot read properties of null'')"
| "validate_entry lib Primitive = ([], Inl ''Invalid keypair format'')"
| "validate_entry lib (ObjectEntry addr) =
     (if \<not> truthy (publicKey addr) \<or> \<not> truthy (privateKey addr) \<or> \<not> truthy (id' addr) then
        ([], Inl ''Invalid keypair format'')
      else
        (case PublicKey_new lib (publicKey addr) of
           Inl err \<Rightarrow> ([NewPublicKey (publicKey addr)], Inl ''Invalid public key format'')
         | Inr pk \<Rightarrow>
             (case bs58_decode lib (privateKey addr) of
                Inl err \<Rightarrow>
                  ([NewPublicKey (publicKey addr), Bs58Decode (privateKey addr)],
                   Inl ''Invalid private key format'')
              | Inr decoded \<Rightarrow>
                  if length decoded \<noteq> 64 then
                    ([NewPublicKey (publicKey addr), Bs58Decode (privateKey addr)],
                     Inl ''Invalid private key format'')
                  else
                    ([NewPublicKey (publicKey addr), Bs58Decode (privateKey addr)], Inr addr))))"

text \<open>The \<^verbatim>\<open>forEach\<close>: the first throw ends it.\<close>

fun validate_entries :: "library \<Rightarrow> entry list \<Rightarrow> event list \<times> (string + keypair_record list)" where
  "validate_entries lib [] = ([], Inr [])"
| "validate_entries lib (e # es) =
     (case validate_entry lib e of
        (ev, Inl err) \<Rightarrow> (ev, Inl err)
      | (ev, Inr addr) \<Rightarrow>
          (case validate_entries lib es of
             (evs, Inl err) \<Rightarrow> (ev @ evs, Inl err)
           | (evs, Inr addrs) \<Rightarrow> (ev @ evs, Inr (addr # addrs))))"

text \<open>The update passed to \<^verbatim>\<open>setAddresses\<close>.\<close>

definition merge_addresses :: "keypair_record list \<Rightarrow> keypair_record list \<Rightarrow> keypair_record list" where
  "merge_addresses prev loadedAddresses =
     (let existingPubKeys = set (map publicKey prev);
          newAddresses = filter (\<lambda>addr. publicKey addr \<notin> existingPubKeys) loadedAddresses
      in prev @ newAddresses)"

definition load_failed :: "event list \<Rightarrow> string \<Rightarrow> app_state \<Rightarrow> event list \<times> app_state" where
  "load_failed evs err st =
     (evs @ [ConsoleError ''Error loading keypairs:'' err,
             Alert (''Failed to load keypairs: '' @ err)], st)"

text \<open>The \<^verbatim>\<open>onload\<close> handler of \<^verbatim>\<open>loadKeypairs\<close>.\<close>

definition loadKeypairs :: "library \<Rightarrow> parsed \<Rightarrow> app_state \<Rightarrow> event list \<times> app_state" where
  "loadKeypairs lib p st =
     (case p of
        SyntaxError err \<Rightarrow> load_failed [] err st
      | NotArray \<Rightarrow> load_failed [] ''Invalid file format: expected an array of keypairs'' st
      | Array loadedAddresses \<Rightarrow>
          (case validate_entries lib loadedAddresses of
             (evs, Inl err) \<Rightarrow> load_failed evs err st
           | (evs, Inr addrs) \<Rightarrow>
               (evs @ [Alert ''Successfully loaded keypairs''],
                st\<lparr>addresses := merge_addresses (addresses st) addrs\<rparr>)))"

section \<open>Test doubles\<close>

text \<open>
  The theorems below hold for every library and every ledger. To evaluate them at
  concrete inputs, here is a small library that knows a handful of base58 texts, with
  the bytes that \<^verbatim>\<open>bs58.decode\<close> gives for them: the two key pairs derived from the
  seeds of 32 zero bytes and of 32 bytes 1, the addresses of 32 zero bytes and of 31
  zero bytes followed by 1 (the second is not a point of the curve), and the texts of
  63 and 64 zero bytes.
\<close>

definition address_A :: string where
  "address_A =
     ''4zvwRjXUKGfvwnParsHAS3HuSVzV5cA4McphgmoCtajS''"

definition bytes_A :: bytes where
  "bytes_A =
     [59, 106, 39, 188, 206, 182, 164, 45, 98, 163, 168, 208, 42, 111, 13,
      115, 101, 50, 21, 119, 29, 226, 67, 166, 58, 192, 72, 161, 139, 89,
      218, 41]"

definition secret_A :: string where
  "secret_A =
     ''111111111111111111111111111111114zvwRjXUKGfvwnParsHAS3HuSVzV5cA4McphgmoCtajS''"

definition address_B :: string where
  "address_B =
     ''AKnL4NNf3DGWZJS6cPknBuEGnVsV4A4m5tgebLHaRSZ9''"

definition bytes_B :: bytes where
  "bytes_B =
     [138, 136, 227, 221, 116, 9, 241, 149, 253, 82, 219, 45, 60, 186, 93,
      114, 202, 103, 9, 191, 29, 148, 18, 27, 243, 116, 136, 1, 180, 15,
      111, 92]"

definition secret_B :: string where
  "secret_B =
     ''2AXDGYSE4f2sz7tvMMzyHvUfcoJmxudvdhBcmiUSo6iuCXagjUCKEQF21awZnUGxmwD4m9vGXuC3qieHXJQHAcT''"

definition address_zero :: string where
  "address_zero =
     ''11111111111111111111111111111111''"

definition address_off_curve :: string where
  "address_off_curve =
     ''11111111111111111111111111111112''"

definition text_63_zeros :: string where
  "text_63_zeros =
     ''111111111111111111111111111111111111111111111111111111111111111''"

definition text_64_zeros :: string where
  "text_64_zeros =
     ''1111111111111111111111111111111111111111111111111111111111111111''"

definition zeros_32 :: bytes where
  "zeros_32 =
     [0, 0, 0, 0, 0, 0, 0, 0, 0, 0, 0, 0, 0, 0, 0, 0, 0, 0, 0, 0, 0, 0, 0,
      0, 0, 0, 0, 0, 0, 0, 0, 0]"

definition known_base58 :: "(string \<times> bytes) list" where
  "known_base58 =
     [(address_A, bytes_A), (address_B, bytes_B), (address_zero, zeros_32),
      (address_off_curve, butlast zeros_32 @ [1]),
      (secret_A, zeros_32 @ bytes_A),
      (secret_B, map (\<lambda>_. 1) zeros_32 @ bytes_B),
      (text_63_zeros, butlast (zeros_32 @ zeros_32)),
      (text_64_zeros, zeros_32 @ zeros_32)]"

definition test_bs58_decode :: "jsval \<Rightarrow> string + bytes" where
  "test_bs58_decode v =
     (case v of
        String s \<Rightarrow>
          (case map_of known_base58 s of
             Some b \<Rightarrow> Inr b
           | None \<Rightarrow> Inl ''Non-base58 character'')
      | _ \<Rightarrow> Inl ''Expected String'')"

definition test_PublicKey_new :: "jsval \<Rightarrow> string + bytes" where
  "test_PublicKey_new v =
     (case test_bs58_decode v of
        Inl err \<Rightarrow> Inl err
      | Inr b \<Rightarrow> if length b = 32 then Inr b else Inl ''Invalid public key input'')"

definition test_fromSecretKey :: "bytes \<Rightarrow> string + keypair" where
  "test_fromSecretKey sk =
     (if sk = zeros_32 @ bytes_A \<or> sk = map (\<lambda>_. 1) zeros_32 @ bytes_B
      then Inr \<lparr>kp_publicKey = drop 32 sk, kp_secretKey = sk\<rparr>
      else Inl ''provided secretKey is invalid'')"

text \<open>Decimal digits of a natural number, as \<^verbatim>\<open>toString\<close> prints an integer.\<close>

function show_nat :: "nat \<Rightarrow> string" where
  "show_nat n =
     (if n < 10 then [''0123456789'' ! n]
      else show_nat (n div 10) @ [''0123456789'' ! (n mod 10)])"
  by pat_completeness auto
termination
  by (relation "measure (\<lambda>n. n)") auto

declare show_nat.simps [simp del]

definition test_Number_toString :: "number \<Rightarrow> string" where
  "test_Number_toString n =
     (case n of
        NaN \<Rightarrow> ''NaN''
      | PosInf \<Rightarrow> ''Infinity''
      | NegInf \<Rightarrow> ''-Infinity''
      | Fin r \<Rightarrow>
          if 0 \<le> r \<and> r = real (nat \<lfloor>r\<rfloor>) then show_nat (nat \<lfloor>r\<rfloor>)
          else ''-'' @ show_nat (nat \<lfloor>- r\<rfloor>))"

text \<open>
  The instruction and the serialized transaction are stand-ins: no theorem depends on
  their bytes.
\<close>

definition test_library :: library where
  "test_library =
     \<lparr>Number_toString = test_Number_toString,
      PublicKey_new = test_PublicKey_new,
      isOnCurve = (\<lambda>b. b \<in> set [bytes_A, bytes_B, zeros_32]),
      bs58_decode = test_bs58_decode,
      fromSecretKey = test_fromSecretKey,
      SystemProgram_transfer = (\<lambda>from dest lamports. Inr [2, 0, 0, 0]),
      sign_serialize = (\<lambda>tx kp. Inr (feePayer tx @ instruction tx))\<rparr>"

text \<open>A node that answers nothing: every request is rejected.\<close>

definition ledger_down :: ledger where
  "ledger_down =
     \<lparr>getBalance_reply = (\<lambda>pk. Inl ''Network request failed''),
      getLatestBlockhash_reply = Inl ''Network request failed'',
      sendRawTransaction_reply = (\<lambda>raw. Inl ''Network request failed''),
      confirmTransaction_reply =
        (\<lambda>sig. \<lparr>settles_after = Some 100, settlement = Inl ''Network request failed''\<rparr>),
      requestAirdrop_reply = (\<lambda>pk lamports. Inl ''Network request failed'')\<rparr>"

text \<open>
  A node that accepts the transaction and whose confirmation settles after the given
  time, without an error; every account holds 2 SOL.
\<close>

definition ledger_confirming :: "nat option \<Rightarrow> ledger" where
  "ledger_confirming t =
     \<lparr>getBalance_reply = (\<lambda>pk. Inr (Fin 2000000000)),
      getLatestBlockhash_reply = Inr (''blockhash'', Fin 1000),
      sendRawTransaction_reply = (\<lambda>raw. Inr ''signature''),
      confirmTransaction_reply = (\<lambda>sig. \<lparr>settles_after = t, settlement = Inr None\<rparr>),
      requestAirdrop_reply = (\<lambda>pk lamports. Inr ''signature'')\<rparr>"

text \<open>A record as \<^verbatim>\<open>createSolanaAddress\<close> makes it, with a balance.\<close>

definition record_A :: "real \<Rightarrow> keypair_record" where
  "record_A b =
     \<lparr>id' = Number (Fin 1730617200000), publicKey = String address_A,
      privateKey = String secret_A, showPrivate = Bool False, balance = Number (Fin b)\<rparr>"

definition record_B :: keypair_record where
  "record_B =
     \<lparr>id' = Number (Fin 1730617200001), publicKey = String address_B,
      privateKey = String secret_B, showPrivate = Bool False, balance = Number (Fin 0)\<rparr>"

section \<open>Predicates of the specification\<close>

text \<open>
  An element of a backup that the specification says must make the import fail: not an
  object, or without \<^verbatim>\<open>id\<close>, \<^verbatim>\<open>publicKey\<close> or \<^verbatim>\<open>privateKey\<close>, or with a public key
  that is no address, or with a private key that does not decode to 64 bytes.
\<close>

definition defective_entry :: "library \<Rightarrow> entry \<Rightarrow> bool" where
  "defective_entry lib e =
     (case e of
        ObjectEntry a \<Rightarrow>
          id' a = Undefined \<or> publicKey a = Undefined \<or> privateKey a = Undefined
          \<or> isl (PublicKey_new lib (publicKey a))
          \<or> (case bs58_decode lib (privateKey a) of
                Inl err \<Rightarrow> True
              | Inr decoded \<Rightarrow> length decoded \<noteq> 64)
      | _ \<Rightarrow> True)"

text \<open>
  A record that passes the validation of the import: the three fields are there (they
  are truthy, which is how the source tests them), the public key is an address, and the
  private key decodes to 64 bytes.
\<close>

definition acceptable_record :: "library \<Rightarrow> keypair_record \<Rightarrow> bool" where
  "acceptable_record lib a =
     (truthy (id' a) \<and> truthy (publicKey a) \<and> truthy (privateKey a)
      \<and> \<not> isl (PublicKey_new lib (publicKey a))
      \<and> (case bs58_decode lib (privateKey a) of
            Inl err \<Rightarrow> False
          | Inr decoded \<Rightarrow> length decoded = 64))"

text \<open>A backup entry whose secret is one byte short.\<close>

definition record_short_secret :: keypair_record where
  "record_short_secret =
     \<lparr>id' = Number (Fin 1730617200002), publicKey = String address_zero,
      privateKey = String text_63_zeros, showPrivate = Bool False, balance = Number (Fin 0)\<rparr>"

text \<open>
  The balance lookup of \<^verbatim>\<open>getBalance\<close> fails: the text is no address, or the node
  rejects the request.
\<close>

definition lookup_fails :: "library \<Rightarrow> ledger \<Rightarrow> jsval \<Rightarrow> bool" where
  "lookup_fails lib lg publicKeyString =
     (case PublicKey_new lib publicKeyString of
        Inl err \<Rightarrow> True
      | Inr pk \<Rightarrow> isl (getBalance_reply lg pk))"

fun is_alert :: "event \<Rightarrow> bool" where
  "is_alert (Alert _) = True"
| "is_alert _ = False"

text \<open>
  A backup entry whose two keys do not belong together: the address of the second key
  pair with the secret of the first.
\<close>

definition record_unpaired :: keypair_record where
  "record_unpaired =
     \<lparr>id' = Number (Fin 1730617200003), publicKey = String address_B,
      privateKey = String secret_A, showPrivate = Bool False, balance = Number (Fin 0)\<rparr>"

text \<open>
  The first stage of the transfer passes: the three fields of the form are filled in, the
  sender is a record of the book, and the amount reads as a number above 0. The record and
  the amount are the ones the source goes on with.
\<close>

definition passes_presence_validation ::
  "library \<Rightarrow> app_state \<Rightarrow> keypair_record \<Rightarrow> number \<Rightarrow> bool" where
  "passes_presence_validation lib st fromAddr transferAmount =
     (fromId (transferData st) \<noteq> [] \<and> toPubkey (transferData st) \<noteq> []
      \<and> amount (transferData st) \<noteq> []
      \<and> find_from lib (fromId (transferData st)) (addresses st) = Inr (Some fromAddr)
      \<and> transferAmount = parseFloat (String (amount (transferData st)))
      \<and> \<not> isNaN transferAmount \<and> \<not> num_le transferAmount (Fin 0))"

text \<open>The destination is no address, or an address that is not on the curve.\<close>

definition destination_invalid :: "library \<Rightarrow> string \<Rightarrow> bool" where
  "destination_invalid lib dest =
     (case PublicKey_new lib (String dest) of
        Inl err \<Rightarrow> True
      | Inr pk \<Rightarrow> \<not> isOnCurve lib pk)"

text \<open>The steps of the fourth stage and of the signing: secret, key pair, transaction.\<close>

fun is_construction :: "event \<Rightarrow> bool" where
  "is_construction (Bs58Decode _) = True"
| "is_construction (FromSecretKey _) = True"
| "is_construction (SystemTransfer _ _ _) = True"
| "is_construction (SignSerialize _) = True"
| "is_construction _ = False"

text \<open>No record of the book has an undefined or null id.\<close>

definition ids_defined :: "app_state \<Rightarrow> bool" where
  "ids_defined st = list_all (\<lambda>r. id' r \<noteq> Undefined \<and> id' r \<noteq> Null) (addresses st)"


definition insufficient_alert :: "event list" where
  "insufficient_alert =
     [Alert ''Insufficient balance. Please ensure you have enough SOL for transfer and fees.'']"


text \<open>The form of a transfer from the first record.\<close>

definition form_A :: "string \<Rightarrow> string \<Rightarrow> transfer_form" where
  "form_A dest amt = \<lparr>fromId = ''1730617200000'', toPubkey = dest, amount = amt\<rparr>"

text \<open>The events of a balance lookup.\<close>

fun is_lookup :: "event \<Rightarrow> bool" where
  "is_lookup (NewPublicKey _) = True"
| "is_lookup (GetBalance _) = True"
| "is_lookup (ConsoleError _ _) = True"
| "is_lookup _ = False"

text \<open>
  The first record with the balance that \<^verbatim>\<open>refreshBalance\<close> writes for an account that
  holds the given number of lamports, and a wallet of that record.
\<close>

definition record_funded :: "nat \<Rightarrow> keypair_record" where
  "record_funded lamports =
     \<lparr>id' = Number (Fin 1730617200000), publicKey = String address_A,
      privateKey = String secret_A, showPrivate = Bool False,
      balance = Number (num_div (Fin (real lamports)) LAMPORTS_PER_SOL)\<rparr>"

definition wallet_funded :: "nat \<Rightarrow> string \<Rightarrow> string \<Rightarrow> app_state" where
  "wallet_funded lamports dest amt =
     \<lparr>addresses = [record_funded lamports], faucetAmount = ''1'',
      transferData = form_A dest amt\<rparr>"

text \<open>
  A node that accepts the transaction and confirms it after 100 ms with an error of the
  ledger.
\<close>

definition ledger_rejecting :: ledger where
  "ledger_rejecting =
     \<lparr>getBalance_reply = (\<lambda>pk. Inr (Fin 2000000000)),
      getLatestBlockhash_reply = Inr (''blockhash'', Fin 1000),
      sendRawTransaction_reply = (\<lambda>raw. Inr ''signature''),
      confirmTransaction_reply =
        (\<lambda>sig. \<lparr>settles_after = Some 100, settlement = Inr (Some ''{}'')\<rparr>),
      requestAirdrop_reply = (\<lambda>pk lamports. Inr ''signature'')\<rparr>"

text \<open>A wallet of one record, with the transfer form filled in.\<close>

definition wallet_A :: "real \<Rightarrow> string \<Rightarrow> string \<Rightarrow> app_state" where
  "wallet_A b dest amt =
     \<lparr>addresses = [record_A b], faucetAmount = ''1'', transferData = form_A dest amt\<rparr>"

section \<open>Sequences of operations\<close>

text \<open>
  What the user can do with the component, one handler after the other; the two setters
  are the change handlers of the inputs. An airdrop whose confirmation never settles leaves
  the state as it is.
\<close>

datatype operation =
    Create string string nat
  | Delete jsval
  | Toggle jsval
  | Refresh jsval
  | Airdrop jsval
  | SetFaucetAmount string
  | SetTransferData transfer_form
  | Transfer
  | Load parsed

fun apply_operation :: "library \<Rightarrow> ledger \<Rightarrow> operation \<Rightarrow> app_state \<Rightarrow> app_state" where
  "apply_operation lib lg (Create pk sk now) st = createSolanaAddress pk sk now st"
| "apply_operation lib lg (Delete i) st = deleteAddress i st"
| "apply_operation lib lg (Toggle i) st = togglePrivateKey i st"
| "apply_operation lib lg (Refresh i) st = snd (refreshBalance lib lg i st)"
| "apply_operation lib lg (Airdrop i) st =
     (case snd (requestAirdrop lib lg i st) of Done st' \<Rightarrow> st' | Pending \<Rightarrow> st)"
| "apply_operation lib lg (SetFaucetAmount v) st = st\<lparr>faucetAmount := v\<rparr>"
| "apply_operation lib lg (SetTransferData f) st = st\<lparr>transferData := f\<rparr>"
| "apply_operation lib lg Transfer st = snd (transferSOL lib lg st)"
| "apply_operation lib lg (Load p) st = snd (loadKeypairs lib p st)"

fun run :: "library \<Rightarrow> ledger \<Rightarrow> operation list \<Rightarrow> app_state \<Rightarrow> app_state" where
  "run lib lg [] st = st"
| "run lib lg (x # xs) st = run lib lg xs (apply_operation lib lg x st)"

text \<open>The objects of a backup whose public key is not in the book.\<close>

fun object_records :: "entry list \<Rightarrow> keypair_record list" where
  "object_records [] = []"
| "object_records (ObjectEntry a # es) = a # object_records es"
| "object_records (_ # es) = object_records es"

definition load_candidates :: "app_state \<Rightarrow> parsed \<Rightarrow> keypair_record list" where
  "load_candidates st p =
     (case p of
        Array es \<Rightarrow>
          filter (\<lambda>a. publicKey a \<notin> set (map publicKey (addresses st))) (object_records es)
      | _ \<Rightarrow> [])"

text \<open>
  The operation brings no id that is in the book already: the clock of a creation reads
  a value that is no id of the book, and the records that a backup would add have ids
  that differ from each other and from those of the book.
\<close>

fun brings_fresh_ids :: "operation \<Rightarrow> app_state \<Rightarrow> bool" where
  "brings_fresh_ids (Create pk sk now) st =
     (Number (Fin (real now)) \<notin> set (map id' (addresses st)))"
| "brings_fresh_ids (Load p) st =
     (distinct (map id' (load_candidates st p))
      \<and> (\<forall>a \<in> set (load_candidates st p). id' a \<notin> set (map id' (addresses st))))"
| "brings_fresh_ids _ st = True"

fun ids_stay_fresh :: "library \<Rightarrow> ledger \<Rightarrow> operation list \<Rightarrow> app_state \<Rightarrow> bool" where
  "ids_stay_fresh lib lg [] st = True"
| "ids_stay_fresh lib lg (x # xs) st =
     (brings_fresh_ids x st \<and> ids_stay_fresh lib lg xs (apply_operation lib lg x st))"

section \<open>Properties\<close>

subsection \<open>Loading a backup\<close>

lemma validate_entry_defective:
  "defective_entry lib e \<Longrightarrow> \<exists>ev err. validate_entry lib e = (ev, Inl err)"
  by (cases e) (auto simp: defective_entry_def split: sum.splits)

lemma validate_entries_defective:
  "\<exists>e \<in> set es. defective_entry lib e \<Longrightarrow> \<exists>evs err. validate_entries lib es = (evs, Inl err)"
proof (induction es)
  case Nil
  then show ?case by simp
next
  case (Cons e es)
  show ?case
  proof (cases "defective_entry lib e")
    case True
    then obtain ev err where "validate_entry lib e = (ev, Inl err)"
      using validate_entry_defective by blast
    then show ?thesis by simp
  next
    case False
    with Cons.prems have "\<exists>e \<in> set es. defective_entry lib e" by simp
    then obtain evs err where "validate_entries lib es = (evs, Inl err)"
      using Cons.IH by blast
    then show ?thesis
      by (cases "validate_entry lib e") (auto split: sum.splits)
  qed
qed

lemma validate_entry_acceptable:
  "acceptable_record lib a \<Longrightarrow> \<exists>ev. validate_entry lib (ObjectEntry a) = (ev, Inr a)"
  by (auto simp: acceptable_record_def split: sum.splits)

lemma validate_entries_acceptable:
  "list_all (acceptable_record lib) addrs
   \<Longrightarrow> \<exists>evs. validate_entries lib (map ObjectEntry addrs) = (evs, Inr addrs)"
proof (induction addrs)
  case Nil
  then show ?case by simp
next
  case (Cons a addrs)
  then obtain ev evs where "validate_entry lib (ObjectEntry a) = (ev, Inr a)"
      and "validate_entries lib (map ObjectEntry addrs) = (evs, Inr addrs)"
    using validate_entry_acceptable by fastforce
  then show ?case by simp
qed

lemma loadKeypairs_accepted:
  assumes "list_all (acceptable_record lib) addrs"
  shows "\<exists>evs. loadKeypairs lib (Array (map ObjectEntry addrs)) st =
           (evs @ [Alert ''Successfully loaded keypairs''],
            st\<lparr>addresses := merge_addresses (addresses st) addrs\<rparr>)"
proof -
  obtain evs where "validate_entries lib (map ObjectEntry addrs) = (evs, Inr addrs)"
    using validate_entries_acceptable [OF assms] by blast
  then show ?thesis by (simp add: loadKeypairs_def)
qed

text \<open>
  Claim C5. A backup that is not an array (or not JSON at all), or that holds an entry
  without \<^verbatim>\<open>id\<close>, \<^verbatim>\<open>publicKey\<close> or \<^verbatim>\<open>privateKey\<close>, or with a public key that is no
  address, or with a private key that does not decode to exactly 64 bytes, is rejected as
  a whole: the address book is what it was, and the failure is shown.
\<close>

theorem import_rejects_whole_payload:
  assumes "(\<exists>err. p = SyntaxError err) \<or> p = NotArray
           \<or> (\<exists>es. p = Array es \<and> (\<exists>e \<in> set es. defective_entry lib e))"
  shows "snd (loadKeypairs lib p st) = st
         \<and> (\<exists>evs err. fst (loadKeypairs lib p st) =
               evs @ [ConsoleError ''Error loading keypairs:'' err,
                      Alert (''Failed to load keypairs: '' @ err)])"
proof (cases p)
  case (SyntaxError err)
  then show ?thesis by (simp add: loadKeypairs_def load_failed_def)
next
  case NotArray
  then show ?thesis by (simp add: loadKeypairs_def load_failed_def)
next
  case (Array es)
  with assms have "\<exists>e \<in> set es. defective_entry lib e" by simp
  then obtain evs err where "validate_entries lib es = (evs, Inl err)"
    using validate_entries_defective by blast
  with Array show ?thesis by (simp add: loadKeypairs_def load_failed_def)
qed

lemmas test_defs = test_library_def test_bs58_decode_def test_PublicKey_new_def
  known_base58_def address_A_def address_B_def secret_A_def secret_B_def address_zero_def
  address_off_curve_def text_63_zeros_def text_64_zeros_def zeros_32_def bytes_A_def bytes_B_def
  record_A_def record_B_def

lemma short_secret_defective: "defective_entry test_library (ObjectEntry record_short_secret)"
  by (simp add: defective_entry_def record_short_secret_def test_defs)

text \<open>
  The example of the specification: one good entry and one entry with a secret of 63
  bytes, loaded into a book of one record.
\<close>

theorem import_rejects_whole_payload_witness:
  "defective_entry test_library (ObjectEntry record_short_secret)
   \<and> snd (loadKeypairs test_library (Array [ObjectEntry record_B, ObjectEntry record_short_secret])
           (initial_state\<lparr>addresses := [record_A 1]\<rparr>))
     = initial_state\<lparr>addresses := [record_A 1]\<rparr>"
  using import_rejects_whole_payload [of "Array [ObjectEntry record_B, ObjectEntry record_short_secret]"
      test_library "initial_state\<lparr>addresses := [record_A 1]\<rparr>"] short_secret_defective
  by simp

lemma merge_addresses_eq:
  "merge_addresses prev loaded =
     prev @ filter (\<lambda>a. publicKey a \<notin> publicKey ` set prev) loaded"
  by (simp add: merge_addresses_def)

text \<open>
  Claim C6. When every entry of the backup passes the validation, the records already in
  the book stay where they are, and behind them come, in the order of the backup, exactly
  the entries whose public key is not yet in the book: the entries are compared by public
  key and not by id. A backup of one new entry and one entry with a known public key
  makes a book of size K a book of size K + 1, with the new entry at the end.
\<close>

theorem import_merges_by_public_key:
  assumes "list_all (acceptable_record lib) addrs"
  shows "let st' = snd (loadKeypairs lib (Array (map ObjectEntry addrs)) st);
             K = length (addresses st);
             existing = publicKey ` set (addresses st)
         in take K (addresses st') = addresses st
            \<and> drop K (addresses st') = filter (\<lambda>a. publicKey a \<notin> existing) addrs
            \<and> (\<forall>a \<in> set addrs. a \<in> set (drop K (addresses st')) \<longleftrightarrow> publicKey a \<notin> existing)
            \<and> (\<forall>new dup. (addrs = [new, dup] \<or> addrs = [dup, new])
                   \<and> publicKey new \<notin> existing \<and> publicKey dup \<in> existing
                 \<longrightarrow> addresses st' = addresses st @ [new] \<and> length (addresses st') = K + 1)"
proof -
  obtain evs where "loadKeypairs lib (Array (map ObjectEntry addrs)) st =
      (evs @ [Alert ''Successfully loaded keypairs''],
       st\<lparr>addresses := merge_addresses (addresses st) addrs\<rparr>)"
    using loadKeypairs_accepted [OF assms] by blast
  then have eq: "addresses (snd (loadKeypairs lib (Array (map ObjectEntry addrs)) st)) =
      addresses st @ filter (\<lambda>a. publicKey a \<notin> publicKey ` set (addresses st)) addrs"
    by (simp add: merge_addresses_eq)
  show ?thesis
    unfolding Let_def eq by auto
qed

text \<open>
  A book holding the first record; the backup holds the second record and a copy of the
  first one under another id. Only the second record is added.
\<close>

theorem import_merges_by_public_key_witness:
  "list_all (acceptable_record test_library) [record_B, (record_A 0)\<lparr>id' := Number (Fin 7)\<rparr>]
   \<and> addresses (snd (loadKeypairs test_library
         (Array (map ObjectEntry [record_B, (record_A 0)\<lparr>id' := Number (Fin 7)\<rparr>]))
         (initial_state\<lparr>addresses := [record_A 1]\<rparr>)))
     = [record_A 1, record_B]"
proof -
  have a: "list_all (acceptable_record test_library) [record_B, (record_A 0)\<lparr>id' := Number (Fin 7)\<rparr>]"
    by (simp add: acceptable_record_def test_defs)
  have "addresses (snd (loadKeypairs test_library
         (Array (map ObjectEntry [record_B, (record_A 0)\<lparr>id' := Number (Fin 7)\<rparr>]))
         (initial_state\<lparr>addresses := [record_A 1]\<rparr>))) = [record_A 1] @ [record_B]"
    using import_merges_by_public_key [OF a, of "initial_state\<lparr>addresses := [record_A 1]\<rparr>"]
    by (simp add: Let_def test_defs)
  with a show ?thesis by simp
qed

lemma validate_entry_fromSecretKey:
  "validate_entry (lib\<lparr>fromSecretKey := f\<rparr>) e = validate_entry lib e"
  by (cases e) (auto split: sum.splits)

lemma validate_entries_fromSecretKey:
  "validate_entries (lib\<lparr>fromSecretKey := f\<rparr>) es = validate_entries lib es"
  by (induction es) (simp_all add: validate_entry_fromSecretKey)

text \<open>
  Claim C10. The validation of the import never asks whether the private key derives
  the public key. An entry with the three fields, an address as public key and a private
  key of 64 bytes, whose public key is not yet in the book, is in the book after the
  import; and the import is the same function whatever \<^verbatim>\<open>Keypair.fromSecretKey\<close> does.
\<close>

theorem import_ignores_pairing:
  assumes "list_all (acceptable_record lib) addrs"
    and "a \<in> set addrs"
    and "publicKey a \<notin> publicKey ` set (addresses st)"
  shows "a \<in> set (addresses (snd (loadKeypairs lib (Array (map ObjectEntry addrs)) st)))
         \<and> (\<forall>f p. loadKeypairs (lib\<lparr>fromSecretKey := f\<rparr>) p st = loadKeypairs lib p st)"
proof -
  obtain evs where "loadKeypairs lib (Array (map ObjectEntry addrs)) st =
      (evs @ [Alert ''Successfully loaded keypairs''],
       st\<lparr>addresses := merge_addresses (addresses st) addrs\<rparr>)"
    using loadKeypairs_accepted [OF assms(1)] by blast
  then have "a \<in> set (addresses (snd (loadKeypairs lib (Array (map ObjectEntry addrs)) st)))"
    using assms(2,3) by (simp add: merge_addresses_eq)
  moreover have "loadKeypairs (lib\<lparr>fromSecretKey := f\<rparr>) p st = loadKeypairs lib p st" for f p
    by (cases p) (simp_all add: loadKeypairs_def validate_entries_fromSecretKey)
  ultimately show ?thesis by blast
qed

text \<open>
  The entry with the address of the second key pair and the secret of the first: the
  secret derives another public key than the one stated, and the entry is imported.
\<close>

theorem import_ignores_pairing_witness:
  "list_all (acceptable_record test_library) [record_unpaired]
   \<and> PublicKey_new test_library (publicKey record_unpaired) = Inr bytes_B
   \<and> bs58_decode test_library (privateKey record_unpaired) = Inr (zeros_32 @ bytes_A)
   \<and> fromSecretKey test_library (zeros_32 @ bytes_A)
       = Inr \<lparr>kp_publicKey = bytes_A, kp_secretKey = zeros_32 @ bytes_A\<rparr>
   \<and> bytes_A \<noteq> bytes_B
   \<and> record_unpaired \<in> set (addresses (snd (loadKeypairs test_library
         (Array (map ObjectEntry [record_unpaired])) initial_state)))"
proof -
  have a: "list_all (acceptable_record test_library) [record_unpaired]"
    by (simp add: acceptable_record_def record_unpaired_def test_defs)
  have b: "publicKey record_unpaired \<notin> publicKey ` set (addresses initial_state)"
    by (simp add: initial_state_def)
  have "record_unpaired \<in> set (addresses (snd (loadKeypairs test_library
         (Array (map ObjectEntry [record_unpaired])) initial_state)))"
    using import_ignores_pairing [OF a _ b] by simp
  moreover have "PublicKey_new test_library (publicKey record_unpaired) = Inr bytes_B"
    by (simp add: record_unpaired_def test_defs)
  moreover have "bs58_decode test_library (privateKey record_unpaired) = Inr (zeros_32 @ bytes_A)"
    by (simp add: record_unpaired_def test_defs)
  moreover have "fromSecretKey test_library (zeros_32 @ bytes_A)
       = Inr \<lparr>kp_publicKey = bytes_A, kp_secretKey = zeros_32 @ bytes_A\<rparr>"
    by (simp add: test_library_def test_fromSecretKey_def zeros_32_def)
  moreover have "bytes_A \<noteq> bytes_B"
    by (simp add: bytes_A_def bytes_B_def)
  ultimately show ?thesis using a by blast
qed

subsection \<open>Balance refresh\<close>

lemma getBalance_fails:
  assumes "lookup_fails lib lg v"
  shows "snd (snd (getBalance lib lg v)) = Fin 0"
    and "\<exists>err. ConsoleError ''Error getting balance:'' err
           \<in> set (fst (getBalance lib lg v) @ fst (snd (getBalance lib lg v)))"
  using assms by (auto simp: lookup_fails_def getBalance_def split: sum.splits)

lemma getBalance_no_alert:
  "list_all (\<lambda>e. \<not> is_alert e) (fst (getBalance lib lg v) @ fst (snd (getBalance lib lg v)))"
  by (auto simp: getBalance_def split: sum.splits)

lemma refresh_records_map:
  "snd (snd (refresh_records lib lg i xs)) =
     map (\<lambda>addr. if strict_eq (id' addr) i
                 then addr\<lparr>balance :=
                        Number (num_div (snd (snd (getBalance lib lg (publicKey addr))))
                                  LAMPORTS_PER_SOL)\<rparr>
                 else addr) xs"
  by (induction xs) (auto split: prod.splits)

lemma refresh_records_events:
  "set (fst (refresh_records lib lg i xs) @ fst (snd (refresh_records lib lg i xs))) =
     (\<Union>addr \<in> {a \<in> set xs. strict_eq (id' a) i}.
        set (fst (getBalance lib lg (publicKey addr))
             @ fst (snd (getBalance lib lg (publicKey addr)))))"
  by (induction xs) (auto split: prod.splits)

lemma refreshBalance_eq:
  "refreshBalance lib lg i st =
     (fst (refresh_records lib lg i (addresses st))
        @ fst (snd (refresh_records lib lg i (addresses st))),
      st\<lparr>addresses := snd (snd (refresh_records lib lg i (addresses st)))\<rparr>)"
  by (simp add: refreshBalance_def split: prod.splits)

lemma refresh_records_no_alert:
  "list_all (\<lambda>e. \<not> is_alert e)
     (fst (refresh_records lib lg i xs) @ fst (snd (refresh_records lib lg i xs)))"
  using getBalance_no_alert [of lib lg]
  unfolding list_all_iff refresh_records_events by auto

lemma zero_lamports: "num_div (Fin 0) LAMPORTS_PER_SOL = Fin 0"
  by (simp add: LAMPORTS_PER_SOL_def round_double_def)

text \<open>
  Claim C1, as the code has it. When the lookup for a record with the refreshed id fails,
  \<^verbatim>\<open>getBalance\<close> logs the error on the console and returns 0, and the record is written
  back with balance 0 and its other fields as they were. No dialog is shown, and
  \<^verbatim>\<open>refreshBalance\<close> returns nothing that tells its caller of the failure.
\<close>

theorem refresh_failure_zeroes_balance:
  assumes "k < length (addresses st)"
    and "strict_eq (id' (addresses st ! k)) i"
    and "lookup_fails lib lg (publicKey (addresses st ! k))"
  shows "addresses (snd (refreshBalance lib lg i st)) ! k
           = (addresses st ! k)\<lparr>balance := Number (Fin 0)\<rparr>
         \<and> (\<exists>err. ConsoleError ''Error getting balance:'' err
                    \<in> set (fst (refreshBalance lib lg i st)))
         \<and> list_all (\<lambda>e. \<not> is_alert e) (fst (refreshBalance lib lg i st))"
proof -
  note r = refreshBalance_eq [of lib lg i st]
  have "addresses (snd (refreshBalance lib lg i st)) ! k
           = (addresses st ! k)\<lparr>balance := Number (Fin 0)\<rparr>"
    using assms by (simp add: r refresh_records_map getBalance_fails(1) zero_lamports)
  moreover have "\<exists>err. ConsoleError ''Error getting balance:'' err
                    \<in> set (fst (refreshBalance lib lg i st))"
  proof -
    obtain err where "ConsoleError ''Error getting balance:'' err
        \<in> set (fst (getBalance lib lg (publicKey (addresses st ! k)))
               @ fst (snd (getBalance lib lg (publicKey (addresses st ! k)))))"
      using getBalance_fails(2) [OF assms(3)] by blast
    moreover have "addresses st ! k \<in> set (addresses st)"
      using assms(1) by simp
    ultimately have "ConsoleError ''Error getting balance:'' err
        \<in> set (fst (refresh_records lib lg i (addresses st))
               @ fst (snd (refresh_records lib lg i (addresses st))))"
      unfolding refresh_records_events using assms(2) by blast
    then show ?thesis
      unfolding r by auto
  qed
  moreover have "list_all (\<lambda>e. \<not> is_alert e) (fst (refreshBalance lib lg i st))"
    using refresh_records_no_alert [of lib lg i "addresses st"] by (simp add: r)
  ultimately show ?thesis by blast
qed

lemma lookup_fails_down: "lookup_fails test_library ledger_down (publicKey (record_A 5))"
  by (simp add: lookup_fails_def ledger_down_def test_defs)

text \<open>
  A record with balance 5 and a node that rejects every request.
\<close>

theorem refresh_failure_zeroes_balance_witness:
  "lookup_fails test_library ledger_down (publicKey (record_A 5))
   \<and> addresses (snd (refreshBalance test_library ledger_down (Number (Fin 1730617200000))
                      (initial_state\<lparr>addresses := [record_A 5]\<rparr>)))
     = [record_A 0]"
proof -
  have "addresses (snd (refreshBalance test_library ledger_down (Number (Fin 1730617200000))
                      (initial_state\<lparr>addresses := [record_A 5]\<rparr>))) ! 0
        = record_A 0"
    using refresh_failure_zeroes_balance [of 0 "initial_state\<lparr>addresses := [record_A 5]\<rparr>"
        "Number (Fin 1730617200000)" test_library ledger_down] lookup_fails_down
    by (simp add: strict_eq_def record_A_def)
  moreover have "length (addresses (snd (refreshBalance test_library ledger_down (Number (Fin 1730617200000))
                      (initial_state\<lparr>addresses := [record_A 5]\<rparr>)))) = 1"
    by (simp add: refreshBalance_eq refresh_records_map del: refresh_records.simps)
  ultimately show ?thesis
    using lookup_fails_down by (auto simp: length_Suc_conv)
qed

text \<open>
  Claim C1 as the specification states it (the balance stays at its prior value) does
  not hold: the node rejects the lookup, and the balance of 5 becomes 0, with only a
  console line to show for it.
\<close>

theorem refresh_failure_counterexample:
  "lookup_fails test_library ledger_down (publicKey (record_A 5))
   \<and> map balance (addresses (initial_state\<lparr>addresses := [record_A 5]\<rparr>)) = [Number (Fin 5)]
   \<and> map balance (addresses (snd (refreshBalance test_library ledger_down (Number (Fin 1730617200000))
                      (initial_state\<lparr>addresses := [record_A 5]\<rparr>))))
     = [Number (Fin 0)]
   \<and> Number (Fin 0) \<noteq> Number (Fin 5)
   \<and> fst (refreshBalance test_library ledger_down (Number (Fin 1730617200000))
                      (initial_state\<lparr>addresses := [record_A 5]\<rparr>))
     = [NewPublicKey (String address_A), GetBalance bytes_A,
        ConsoleError ''Error getting balance:'' ''Network request failed'']"
  by (simp add: lookup_fails_def refreshBalance_def getBalance_def strict_eq_def
        LAMPORTS_PER_SOL_def round_double_def ledger_down_def test_defs)

subsection \<open>The faucet\<close>

lemma getBalance_lookups:
  "list_all is_lookup (fst (getBalance lib lg v) @ fst (snd (getBalance lib lg v)))"
  by (auto simp: getBalance_def split: sum.splits)

lemma refresh_records_lookups:
  "list_all is_lookup
     (fst (refresh_records lib lg i xs) @ fst (snd (refresh_records lib lg i xs)))"
  using getBalance_lookups [of lib lg]
  unfolding list_all_iff refresh_records_events by auto


lemmas round_defs = round_double_def round_positive_def round_half_even_def binary_exponent_def
  bit_length.simps Let_def

lemmas parse_defs = parseFloat_string_def decimal_value_def parse_unsigned_def is_space_def
  is_digit_def digits_val_def digit_val_def parse_exponent_def signed_digits_def round_defs



subsection \<open>The transfer\<close>

lemma refreshBalance_lookups: "list_all is_lookup (fst (refreshBalance lib lg i st))"
  using refresh_records_lookups [of lib lg i "addresses st"]
  by (simp add: refreshBalance_eq)

lemma submit_transfer_shift:
  "submit_transfer lib lg st a kp instr evs1 =
     (evs1 @ fst (submit_transfer lib lg st a kp instr []),
      snd (submit_transfer lib lg st a kp instr []))"
  by (auto simp: submit_transfer_def transfer_failed_def Let_def
           split: sum.splits prod.splits option.splits)

lemma construct_transfer_shift:
  "construct_transfer lib lg st a pk amt evs0 =
     (evs0 @ fst (construct_transfer lib lg st a pk amt []),
      snd (construct_transfer lib lg st a pk amt []))"
  by (auto simp: construct_transfer_def transfer_failed_def Let_def
                 submit_transfer_shift [of _ _ _ _ _ _ "_ @ _"]
                 submit_transfer_shift [of _ _ _ _ _ _ "[_, _, _]"]
           split: sum.splits prod.splits option.splits)

lemma construct_transfer_hd:
  "hd (fst (construct_transfer lib lg st a pk amt [])) = Bs58Decode (privateKey a)"
  by (auto simp: construct_transfer_def transfer_failed_def Let_def
                 submit_transfer_shift [of _ _ _ _ _ _ "[_, _, _]"]
           split: sum.splits prod.splits option.splits)

lemma fee_reserve_double: "FEE_RESERVE = Fin (5902958103587057 / 2 ^ 70)"
  by (simp add: FEE_RESERVE_def round_defs)


lemmas wallet_defs = wallet_A_def form_A_def test_Number_toString_def test_fromSecretKey_def
  show_nat.simps Let_def

lemmas funded_defs = wallet_funded_def record_funded_def form_A_def test_Number_toString_def
  test_fromSecretKey_def show_nat.simps LAMPORTS_PER_SOL_def





text \<open>
  The sum is the rounded one. An account of 100005000 lamports shows 0.100005, and the
  amount 0.1 plus 0.000005 is 0.100005 as a decimal; but the double sum lies above the
  double balance, and the transfer is rejected.
\<close>

lemma balance_precheck_rounded_sum:
  "transferSOL test_library ledger_down (wallet_funded 100005000 address_zero ''0.1'')
     = (insufficient_alert, wallet_funded 100005000 address_zero ''0.1'')"
  by (simp add: isNaN_def fee_reserve_double insufficient_alert_def transferSOL_def
        funded_defs parse_defs test_defs)






lemma transferSOL_cases:
  "(list_all (\<lambda>e. \<not> is_network e \<and> \<not> is_construction e) (fst (transferSOL lib lg st))
      \<and> snd (transferSOL lib lg st) = st)
   \<or> (\<exists>a pk. PublicKey_new lib (String (toPubkey (transferData st))) = Inr pk
          \<and> isOnCurve lib pk
          \<and> transferSOL lib lg st =
              construct_transfer lib lg st a pk (parseFloat (String (amount (transferData st))))
                [NewPublicKey (String (toPubkey (transferData st))), IsOnCurve pk])"
  by (auto simp: transferSOL_def Let_def transfer_failed_def split: sum.splits option.splits)






text \<open>
  Claim C7. When the destination is no address, or an address that is not on the curve,
  the transfer never reaches the fourth stage: the secret is not decoded, no key pair is
  derived, no transaction is built or signed, the node is not called, and the state stays
  as it is. When the request has passed the first two stages, it ends in the third, with
  one of the two dialogs about the destination.
\<close>

theorem invalid_destination_rejected:
  assumes "destination_invalid lib (toPubkey (transferData st))"
  shows "snd (transferSOL lib lg st) = st
         \<and> list_all (\<lambda>e. \<not> is_network e \<and> \<not> is_construction e) (fst (transferSOL lib lg st))
         \<and> (\<forall>fromAddr transferAmount.
               passes_presence_validation lib st fromAddr transferAmount
               \<and> \<not> num_lt (parseFloat (balance fromAddr)) (num_add transferAmount FEE_RESERVE)
             \<longrightarrow> last (fst (transferSOL lib lg st))
                   \<in> {Alert ''Invalid destination address format'',
                      Alert ''Invalid destination address''}
                 \<and> list_all (\<lambda>e. \<not> is_alert e) (butlast (fst (transferSOL lib lg st))))"
proof -
  have quiet: "snd (transferSOL lib lg st) = st
         \<and> list_all (\<lambda>e. \<not> is_network e \<and> \<not> is_construction e) (fst (transferSOL lib lg st))"
    using transferSOL_cases [of lib lg st] assms
    by (auto simp: destination_invalid_def)
  have "last (fst (transferSOL lib lg st))
                   \<in> {Alert ''Invalid destination address format'',
                      Alert ''Invalid destination address''}
                 \<and> list_all (\<lambda>e. \<not> is_alert e) (butlast (fst (transferSOL lib lg st)))"
    if "passes_presence_validation lib st fromAddr transferAmount"
      and "\<not> num_lt (parseFloat (balance fromAddr)) (num_add transferAmount FEE_RESERVE)"
    for fromAddr transferAmount
    using that assms
    by (auto simp: transferSOL_def passes_presence_validation_def destination_invalid_def Let_def
             split: sum.splits)
  with quiet show ?thesis by blast
qed

lemma off_curve_invalid:
  "destination_invalid test_library (toPubkey (transferData (wallet_A 1 address_off_curve ''0.5'')))"
  by (simp add: destination_invalid_def wallet_defs test_defs)

lemma passes_off_curve:
  "passes_presence_validation test_library (wallet_A 1 address_off_curve ''0.5'')
     (record_A 1) (Fin (1 / 2))"
  by (simp add: passes_presence_validation_def isNaN_def wallet_defs parse_defs test_defs)

text \<open>
  The example of the specification: an address of the right form that is not a point of
  the curve.
\<close>

theorem invalid_destination_rejected_witness:
  "destination_invalid test_library (toPubkey (transferData (wallet_A 1 address_off_curve ''0.5'')))
   \<and> PublicKey_new test_library (String address_off_curve) = Inr (butlast zeros_32 @ [1])
   \<and> passes_presence_validation test_library (wallet_A 1 address_off_curve ''0.5'')
        (record_A 1) (Fin (1 / 2))
   \<and> \<not> num_lt (parseFloat (balance (record_A 1))) (num_add (Fin (1 / 2)) FEE_RESERVE)
   \<and> snd (transferSOL test_library (ledger_confirming (Some 100))
            (wallet_A 1 address_off_curve ''0.5'')) = wallet_A 1 address_off_curve ''0.5''
   \<and> last (fst (transferSOL test_library (ledger_confirming (Some 100))
                  (wallet_A 1 address_off_curve ''0.5'')))
       \<in> {Alert ''Invalid destination address format'', Alert ''Invalid destination address''}
   \<and> list_all (\<lambda>e. \<not> is_network e \<and> \<not> is_construction e)
        (fst (transferSOL test_library (ledger_confirming (Some 100))
               (wallet_A 1 address_off_curve ''0.5'')))"
proof -
  have b: "\<not> num_lt (parseFloat (balance (record_A 1))) (num_add (Fin (1 / 2)) FEE_RESERVE)"
    by (simp add: record_A_def fee_reserve_double round_defs)
  have p: "PublicKey_new test_library (String address_off_curve) = Inr (butlast zeros_32 @ [1])"
    by (simp add: test_defs)
  show ?thesis
    using invalid_destination_rejected [OF off_curve_invalid, of "ledger_confirming (Some 100)"]
      off_curve_invalid passes_off_curve b p
    by blast
qed

lemma lookup_not_confirm: "is_lookup e \<Longrightarrow> e \<noteq> ConfirmTransaction s"
  by (cases e) auto

text \<open>
  A transfer that has been sent and whose race does not end in a confirmation without
  error: the race is lost to the timer or rejected, with the message \<open>msg\<close>, or the
  confirmation carries an error of the ledger.
\<close>

lemma submit_transfer_unconfirmed:
  assumes "ConfirmTransaction s \<in> set (fst (submit_transfer lib lg st a kp instr []))"
    and "race_confirmation (confirmTransaction_reply lg s) = Inl msg
         \<or> (\<exists>e. race_confirmation (confirmTransaction_reply lg s) = Inr (Some e)
                \<and> msg = ''Transaction failed: '' @ e)"
  shows "\<exists>evs. submit_transfer lib lg st a kp instr [] =
           (evs @ [ConfirmTransaction s, ConsoleError ''Error transferring SOL:'' msg,
                   Alert (''Transfer failed: '' @ msg)], st)
           \<and> list_all (\<lambda>e. \<not> is_lookup e \<and> \<not> is_alert e) evs"
proof -
  have r: "ConfirmTransaction s \<notin> set (fst (refreshBalance lib lg (id' a) st))"
    using refreshBalance_lookups [of lib lg "id' a" st] lookup_not_confirm
    by (auto simp: list_all_iff)
  show ?thesis
    using assms r
    by (auto simp: submit_transfer_def transfer_failed_def Let_def
             split: sum.splits prod.splits option.splits if_splits)
qed

lemma construct_transfer_unconfirmed:
  assumes "ConfirmTransaction s \<in> set (fst (construct_transfer lib lg st a pk amt []))"
    and "race_confirmation (confirmTransaction_reply lg s) = Inl msg
         \<or> (\<exists>e. race_confirmation (confirmTransaction_reply lg s) = Inr (Some e)
                \<and> msg = ''Transaction failed: '' @ e)"
  shows "\<exists>evs. construct_transfer lib lg st a pk amt [] =
           (evs @ [ConfirmTransaction s, ConsoleError ''Error transferring SOL:'' msg,
                   Alert (''Transfer failed: '' @ msg)], st)
           \<and> list_all (\<lambda>e. \<not> is_lookup e \<and> \<not> is_alert e) evs"
proof (cases "bs58_decode lib (privateKey a)")
  case (Inl err)
  with assms(1) show ?thesis
    by (simp add: construct_transfer_def transfer_failed_def)
next
  case d: (Inr secretKey)
  show ?thesis
  proof (cases "fromSecretKey lib secretKey")
    case (Inl err)
    with assms(1) d show ?thesis
      by (simp add: construct_transfer_def transfer_failed_def)
  next
    case k: (Inr kp)
    show ?thesis
    proof (cases "SystemProgram_transfer lib (kp_publicKey kp) pk (num_mul amt LAMPORTS_PER_SOL)")
      case (Inl err)
      with assms(1) d k show ?thesis
        by (simp add: construct_transfer_def transfer_failed_def Let_def)
    next
      case i: (Inr instr)
      let ?pre = "[Bs58Decode (privateKey a), FromSecretKey secretKey,
                   SystemTransfer (kp_publicKey kp) pk (num_mul amt LAMPORTS_PER_SOL)]"
      let ?tail = "[ConfirmTransaction s, ConsoleError ''Error transferring SOL:'' msg,
                    Alert (''Transfer failed: '' @ msg)]"
      have c: "construct_transfer lib lg st a pk amt [] =
          (?pre @ fst (submit_transfer lib lg st a kp instr []),
           snd (submit_transfer lib lg st a kp instr []))"
        using d k i
        by (simp add: construct_transfer_def Let_def submit_transfer_shift [of _ _ _ _ _ _ "[_, _, _]"])
      with assms(1) have "ConfirmTransaction s \<in> set (fst (submit_transfer lib lg st a kp instr []))"
        by simp
      then obtain evs where e: "submit_transfer lib lg st a kp instr [] = (evs @ ?tail, st)"
        and l: "list_all (\<lambda>e. \<not> is_lookup e \<and> \<not> is_alert e) evs"
        using submit_transfer_unconfirmed assms(2) by blast
      have "construct_transfer lib lg st a pk amt [] = ((?pre @ evs) @ ?tail, st)"
        using c e by simp
      moreover have "list_all (\<lambda>e. \<not> is_lookup e \<and> \<not> is_alert e) (?pre @ evs)"
        using l by simp
      ultimately show ?thesis by blast
    qed
  qed
qed

lemma transferSOL_unconfirmed:
  assumes "ConfirmTransaction s \<in> set (fst (transferSOL lib lg st))"
    and "race_confirmation (confirmTransaction_reply lg s) = Inl msg
         \<or> (\<exists>e. race_confirmation (confirmTransaction_reply lg s) = Inr (Some e)
                \<and> msg = ''Transaction failed: '' @ e)"
  shows "\<exists>evs. transferSOL lib lg st =
           (evs @ [ConfirmTransaction s, ConsoleError ''Error transferring SOL:'' msg,
                   Alert (''Transfer failed: '' @ msg)], st)
           \<and> list_all (\<lambda>e. \<not> is_alert e \<and> (\<forall>b. e \<noteq> GetBalance b)) evs"
proof -
  from transferSOL_cases [of lib lg st]
  obtain a pk where t: "transferSOL lib lg st =
              construct_transfer lib lg st a pk (parseFloat (String (amount (transferData st))))
                [NewPublicKey (String (toPubkey (transferData st))), IsOnCurve pk]"
    using assms(1) by (auto simp: list_all_iff)
  let ?amt = "parseFloat (String (amount (transferData st)))"
  let ?pre = "[NewPublicKey (String (toPubkey (transferData st))), IsOnCurve pk]"
  let ?tail = "[ConfirmTransaction s, ConsoleError ''Error transferring SOL:'' msg,
                Alert (''Transfer failed: '' @ msg)]"
  have t': "transferSOL lib lg st =
      (?pre @ fst (construct_transfer lib lg st a pk ?amt []),
       snd (construct_transfer lib lg st a pk ?amt []))"
    using t construct_transfer_shift [of lib lg st a pk ?amt ?pre] by simp
  with assms(1) have "ConfirmTransaction s \<in> set (fst (construct_transfer lib lg st a pk ?amt []))"
    by simp
  then obtain evs where e: "construct_transfer lib lg st a pk ?amt [] = (evs @ ?tail, st)"
    and l: "list_all (\<lambda>e. \<not> is_lookup e \<and> \<not> is_alert e) evs"
    using construct_transfer_unconfirmed assms(2) by blast
  have 1: "transferSOL lib lg st = ((?pre @ evs) @ ?tail, st)"
    using t' e by simp
  have "is_lookup (GetBalance b)" for b by simp
  with l have 2: "list_all (\<lambda>e. \<not> is_alert e \<and> (\<forall>b. e \<noteq> GetBalance b)) (?pre @ evs)"
    by (auto simp: list_all_iff)
  from 1 2 show ?thesis by blast
qed

lemma timer_wins:
  assumes "case settles_after c of None \<Rightarrow> True | Some t \<Rightarrow> 30000 < t"
  shows "race_confirmation c = Inl ''Transaction confirmation timeout''"
  using assms
  by (simp add: race_confirmation_def resolves_within_timeout_def confirmation_timeout_def
           split: option.splits)

lemma confirmation_wins:
  assumes "settles_after c = Some t" and "t \<le> 30000"
  shows "race_confirmation c = settlement c"
  using assms
  by (simp add: race_confirmation_def resolves_within_timeout_def confirmation_timeout_def)

text \<open>
  Claim C4. When the transfer has been sent and its confirmation has not settled when the
  timer fires, 30000 milliseconds after the race has begun, the transfer ends with the
  timer's own error: the dialog \<^verbatim>\<open>Transfer failed: Transaction confirmation timeout\<close> is the
  only dialog, the addresses and the form are what they were, and no balance lookup is
  made. A transfer that the ledger rejects ends otherwise: when the confirmation settles
  in time with an error of the ledger, the last dialog is
  \<^verbatim>\<open>Transfer failed: Transaction failed: \<close> followed by that error, and this is never the
  dialog of the transfer that timed out. The source has one \<^verbatim>\<open>catch\<close> for both, so the
  message is what tells the two outcomes apart.
\<close>

theorem confirmation_timeout_outcome:
  assumes "ConfirmTransaction s \<in> set (fst (transferSOL lib lg st))"
    and "case settles_after (confirmTransaction_reply lg s) of
           None \<Rightarrow> True | Some t \<Rightarrow> 30000 < t"
  shows "(\<exists>evs. fst (transferSOL lib lg st) =
              evs @ [ConfirmTransaction s,
                     ConsoleError ''Error transferring SOL:'' ''Transaction confirmation timeout'',
                     Alert ''Transfer failed: Transaction confirmation timeout'']
              \<and> list_all (\<lambda>e. \<not> is_alert e) evs
              \<and> list_all (\<lambda>e. \<forall>pk. e \<noteq> GetBalance pk) evs)
         \<and> snd (transferSOL lib lg st) = st
         \<and> (\<forall>lg' st' s' t e.
               ConfirmTransaction s' \<in> set (fst (transferSOL lib lg' st'))
               \<and> settles_after (confirmTransaction_reply lg' s') = Some t \<and> t \<le> 30000
               \<and> settlement (confirmTransaction_reply lg' s') = Inr (Some e)
             \<longrightarrow> last (fst (transferSOL lib lg' st'))
                   = Alert (''Transfer failed: '' @ ''Transaction failed: '' @ e)
                 \<and> snd (transferSOL lib lg' st') = st'
                 \<and> last (fst (transferSOL lib lg' st')) \<noteq> last (fst (transferSOL lib lg st)))"
proof -
  obtain evs where e: "transferSOL lib lg st =
           (evs @ [ConfirmTransaction s,
                   ConsoleError ''Error transferring SOL:'' ''Transaction confirmation timeout'',
                   Alert (''Transfer failed: '' @ ''Transaction confirmation timeout'')], st)"
    and l: "list_all (\<lambda>e. \<not> is_alert e \<and> (\<forall>b. e \<noteq> GetBalance b)) evs"
    using transferSOL_unconfirmed [OF assms(1)] timer_wins [OF assms(2)] by blast
  have 1: "fst (transferSOL lib lg st) =
      evs @ [ConfirmTransaction s,
             ConsoleError ''Error transferring SOL:'' ''Transaction confirmation timeout'',
             Alert ''Transfer failed: Transaction confirmation timeout'']"
    and 2: "snd (transferSOL lib lg st) = st"
    using e by simp_all
  have 3: "list_all (\<lambda>e. \<not> is_alert e) evs"
    using l by (simp add: list_all_iff)
  have 4: "list_all (\<lambda>e. \<forall>b. e \<noteq> GetBalance b) evs"
    using l by (simp add: list_all_iff)
  have 5: "last (fst (transferSOL lib lg st))
      = Alert ''Transfer failed: Transaction confirmation timeout''"
    using 1 by simp
  have 6: "last (fst (transferSOL lib lg' st'))
             = Alert (''Transfer failed: '' @ ''Transaction failed: '' @ x)
           \<and> snd (transferSOL lib lg' st') = st'
           \<and> last (fst (transferSOL lib lg' st')) \<noteq> last (fst (transferSOL lib lg st))"
    if c: "ConfirmTransaction s' \<in> set (fst (transferSOL lib lg' st'))"
      and t: "settles_after (confirmTransaction_reply lg' s') = Some t" "t \<le> 30000"
      and x: "settlement (confirmTransaction_reply lg' s') = Inr (Some x)"
    for lg' st' s' t x
  proof -
    have "race_confirmation (confirmTransaction_reply lg' s') = Inr (Some x)"
      using confirmation_wins [OF t] x by simp
    then obtain evs' where "transferSOL lib lg' st' =
           (evs' @ [ConfirmTransaction s',
                    ConsoleError ''Error transferring SOL:'' (''Transaction failed: '' @ x),
                    Alert (''Transfer failed: '' @ ''Transaction failed: '' @ x)], st')"
      using transferSOL_unconfirmed [OF c, of "''Transaction failed: '' @ x"] by blast
    then have "last (fst (transferSOL lib lg' st'))
             = Alert (''Transfer failed: '' @ ''Transaction failed: '' @ x)"
      and "snd (transferSOL lib lg' st') = st'"
      by simp_all
    then show ?thesis using 5 by simp
  qed
  have "\<exists>evs. fst (transferSOL lib lg st) =
              evs @ [ConfirmTransaction s,
                     ConsoleError ''Error transferring SOL:'' ''Transaction confirmation timeout'',
                     Alert ''Transfer failed: Transaction confirmation timeout'']
              \<and> list_all (\<lambda>e. \<not> is_alert e) evs
              \<and> list_all (\<lambda>e. \<forall>pk. e \<noteq> GetBalance pk) evs"
    by (intro exI [of _ evs] conjI 1 3 4)
  moreover note 2
  moreover have "\<forall>lg' st' s' t e.
               ConfirmTransaction s' \<in> set (fst (transferSOL lib lg' st'))
               \<and> settles_after (confirmTransaction_reply lg' s') = Some t \<and> t \<le> 30000
               \<and> settlement (confirmTransaction_reply lg' s') = Inr (Some e)
             \<longrightarrow> last (fst (transferSOL lib lg' st'))
                   = Alert (''Transfer failed: '' @ ''Transaction failed: '' @ e)
                 \<and> snd (transferSOL lib lg' st') = st'
                 \<and> last (fst (transferSOL lib lg' st')) \<noteq> last (fst (transferSOL lib lg st))"
    using 6 by blast
  ultimately show ?thesis by (intro conjI)
qed

lemma passes_half:
  "passes_presence_validation test_library (wallet_A 1 address_zero ''0.5'')
     (record_A 1) (Fin (1 / 2))"
  by (simp add: passes_presence_validation_def isNaN_def wallet_defs parse_defs test_defs)

lemmas transfer_defs = transferSOL_def construct_transfer_def submit_transfer_def
  transfer_failed_def race_confirmation_def resolves_within_timeout_def
  confirmation_timeout_def isNaN_def fee_reserve_double LAMPORTS_PER_SOL_def

lemma late_confirmation_run:
  "fst (transferSOL test_library (ledger_confirming (Some 30001))
         (wallet_A 1 address_zero ''0.5'')) =
     [NewPublicKey (String address_zero), IsOnCurve zeros_32,
      Bs58Decode (String secret_A), FromSecretKey (zeros_32 @ bytes_A),
      SystemTransfer bytes_A zeros_32 (Fin 500000000), GetLatestBlockhash,
      SignSerialize \<lparr>instruction = [2, 0, 0, 0], feePayer = bytes_A,
                      recentBlockhash = ''blockhash''\<rparr>,
      SendRawTransaction (bytes_A @ [2, 0, 0, 0]), ConfirmTransaction ''signature'',
      ConsoleError ''Error transferring SOL:'' ''Transaction confirmation timeout'',
      Alert ''Transfer failed: Transaction confirmation timeout'']"
  by (simp add: transfer_defs ledger_confirming_def wallet_defs parse_defs test_defs)

lemma rejected_run:
  "ConfirmTransaction ''signature''
     \<in> set (fst (transferSOL test_library ledger_rejecting (wallet_A 1 address_zero ''0.5'')))"
  by (simp add: transfer_defs ledger_rejecting_def wallet_defs parse_defs test_defs)

text \<open>
  A node whose confirmation settles one millisecond after the timer has fired; and, for
  the other outcome, a node that confirms after 100 ms with an error of the ledger.
\<close>

theorem confirmation_timeout_outcome_witness:
  "ConfirmTransaction ''signature''
     \<in> set (fst (transferSOL test_library (ledger_confirming (Some 30001))
                  (wallet_A 1 address_zero ''0.5'')))
   \<and> settles_after (confirmTransaction_reply (ledger_confirming (Some 30001)) ''signature'')
       = Some 30001
   \<and> snd (transferSOL test_library (ledger_confirming (Some 30001))
            (wallet_A 1 address_zero ''0.5''))
       = wallet_A 1 address_zero ''0.5''
   \<and> last (fst (transferSOL test_library (ledger_confirming (Some 30001))
                  (wallet_A 1 address_zero ''0.5'')))
       = Alert ''Transfer failed: Transaction confirmation timeout''
   \<and> last (fst (transferSOL test_library ledger_rejecting (wallet_A 1 address_zero ''0.5'')))
       = Alert ''Transfer failed: Transaction failed: {}''"
proof -
  have a: "ConfirmTransaction ''signature''
     \<in> set (fst (transferSOL test_library (ledger_confirming (Some 30001))
                  (wallet_A 1 address_zero ''0.5'')))"
    by (simp add: late_confirmation_run)
  have b: "settles_after (confirmTransaction_reply (ledger_confirming (Some 30001)) ''signature'')
       = Some 30001"
    by (simp add: ledger_confirming_def)
  have c: "case settles_after (confirmTransaction_reply (ledger_confirming (Some 30001)) ''signature'')
           of None \<Rightarrow> True | Some t \<Rightarrow> 30000 < t"
    by (simp add: b)
  have r: "settles_after (confirmTransaction_reply ledger_rejecting ''signature'') = Some 100
           \<and> (100::nat) \<le> 30000
           \<and> settlement (confirmTransaction_reply ledger_rejecting ''signature'') = Inr (Some ''{}'')"
    by (simp add: ledger_rejecting_def)
  note th = confirmation_timeout_outcome [OF a c]
  from th have "snd (transferSOL test_library (ledger_confirming (Some 30001))
            (wallet_A 1 address_zero ''0.5'')) = wallet_A 1 address_zero ''0.5''"
    by blast
  moreover from th have "last (fst (transferSOL test_library (ledger_confirming (Some 30001))
                  (wallet_A 1 address_zero ''0.5'')))
       = Alert ''Transfer failed: Transaction confirmation timeout''"
    by auto
  moreover from th rejected_run r
  have "last (fst (transferSOL test_library ledger_rejecting (wallet_A 1 address_zero ''0.5'')))
       = Alert (''Transfer failed: '' @ ''Transaction failed: '' @ ''{}'')"
    by blast
  ultimately show ?thesis
    using a b by simp
qed

text \<open>
  The timer decides. With the confirmation settling at 30000 ms, the same transfer
  succeeds: the balance is looked up and written, and the form is cleared.
\<close>

lemma confirmation_in_time_run:
  "transferSOL test_library (ledger_confirming (Some 30000)) (wallet_A 1 address_zero ''0.5'') =
     ([NewPublicKey (String address_zero), IsOnCurve zeros_32,
       Bs58Decode (String secret_A), FromSecretKey (zeros_32 @ bytes_A),
       SystemTransfer bytes_A zeros_32 (Fin 500000000), GetLatestBlockhash,
       SignSerialize \<lparr>instruction = [2, 0, 0, 0], feePayer = bytes_A,
                       recentBlockhash = ''blockhash''\<rparr>,
       SendRawTransaction (bytes_A @ [2, 0, 0, 0]), ConfirmTransaction ''signature'',
       Alert ''Transfer successful! Transaction signature: signature'',
       NewPublicKey (String address_A), GetBalance bytes_A],
      \<lparr>addresses = [record_A 2], faucetAmount = ''1'',
        transferData = \<lparr>fromId = [], toPubkey = [], amount = []\<rparr>\<rparr>)"
  by (simp add: transfer_defs ledger_confirming_def wallet_defs parse_defs test_defs
        refreshBalance_def getBalance_def strict_eq_def)

subsection \<open>The ids of the book\<close>

lemma refresh_records_ids:
  "map id' (snd (snd (refresh_records lib lg i xs))) = map id' xs"
  by (simp add: refresh_records_map)

lemma refreshBalance_ids:
  "map id' (addresses (snd (refreshBalance lib lg i st))) = map id' (addresses st)"
  using refresh_records_ids [of lib lg i "addresses st"]
  by (simp add: refreshBalance_eq)

lemma submit_transfer_ids:
  "map id' (addresses (snd (submit_transfer lib lg st a kp instr evs))) = map id' (addresses st)"
  using refreshBalance_ids [of lib lg "id' a" st]
  by (auto simp: submit_transfer_def transfer_failed_def Let_def
           split: sum.splits prod.splits option.splits)

lemma construct_transfer_ids:
  "map id' (addresses (snd (construct_transfer lib lg st a pk amt evs))) = map id' (addresses st)"
  by (auto simp: construct_transfer_def transfer_failed_def Let_def submit_transfer_ids
           split: sum.splits)

lemma transferSOL_ids:
  "map id' (addresses (snd (transferSOL lib lg st))) = map id' (addresses st)"
  using transferSOL_cases [of lib lg st] by (auto simp: construct_transfer_ids)

lemma requestAirdrop_ids:
  "snd (requestAirdrop lib lg i st) = Done st' \<Longrightarrow> map id' (addresses st') = map id' (addresses st)"
  using refreshBalance_ids [of lib lg i st]
  by (auto simp: requestAirdrop_def airdrop_failed_def Let_def
           split: sum.splits prod.splits option.splits if_splits)

lemma togglePrivateKey_ids:
  "map id' (addresses (togglePrivateKey i st)) = map id' (addresses st)"
  by (simp add: togglePrivateKey_def comp_def if_distrib cong: if_cong)

lemma validate_entries_records:
  "validate_entries lib es = (evs, Inr addrs) \<Longrightarrow> object_records es = addrs"
proof (induction es arbitrary: evs addrs)
  case Nil
  then show ?case by simp
next
  case (Cons e es)
  then show ?case
    by (cases e) (auto split: sum.splits prod.splits if_splits)
qed

lemma validate_entries_truthy:
  "validate_entries lib es = (evs, Inr addrs) \<Longrightarrow> list_all (\<lambda>a. truthy (id' a)) addrs"
proof (induction es arbitrary: evs addrs)
  case Nil
  then show ?case by simp
next
  case (Cons e es)
  then show ?case
    by (cases e) (auto split: sum.splits prod.splits if_splits)
qed

lemma loadKeypairs_addresses:
  "addresses (snd (loadKeypairs lib p st)) = addresses st
   \<or> (addresses (snd (loadKeypairs lib p st)) = addresses st @ load_candidates st p
      \<and> list_all (\<lambda>a. truthy (id' a)) (load_candidates st p))"
proof (cases p)
  case (SyntaxError x1)
  then show ?thesis by (simp add: loadKeypairs_def load_failed_def)
next
  case NotArray
  then show ?thesis by (simp add: loadKeypairs_def load_failed_def)
next
  case (Array es)
  show ?thesis
  proof (cases "validate_entries lib es")
    case (Pair evs r)
    show ?thesis
    proof (cases r)
      case (Inl err)
      with Pair Array show ?thesis by (simp add: loadKeypairs_def load_failed_def)
    next
      case (Inr addrs)
      with Pair have "object_records es = addrs" and "list_all (\<lambda>a. truthy (id' a)) addrs"
        using validate_entries_records validate_entries_truthy by blast+
      with Pair Array Inr show ?thesis
        by (auto simp: loadKeypairs_def load_candidates_def merge_addresses_def list_all_iff)
    qed
  qed
qed

lemma apply_operation_distinct:
  assumes "distinct (map id' (addresses st))" and "brings_fresh_ids x st"
  shows "distinct (map id' (addresses (apply_operation lib lg x st)))"
proof (cases x)
  case (Create pk sk now)
  with assms show ?thesis by (simp add: createSolanaAddress_def)
next
  case (Delete i)
  with assms show ?thesis by (simp add: deleteAddress_def distinct_map_filter)
next
  case (Toggle i)
  with assms show ?thesis by (simp add: togglePrivateKey_ids)
next
  case (Refresh i)
  with assms show ?thesis by (simp add: refreshBalance_ids)
next
  case (Airdrop i)
  with assms show ?thesis
    by (cases "snd (requestAirdrop lib lg i st)") (auto dest: requestAirdrop_ids)
next
  case (SetFaucetAmount v)
  with assms show ?thesis by simp
next
  case (SetTransferData f)
  with assms show ?thesis by simp
next
  case Transfer
  with assms show ?thesis by (simp add: transferSOL_ids)
next
  case (Load p)
  from assms(2) Load have f: "distinct (map id' (load_candidates st p))"
    and g: "\<forall>a \<in> set (load_candidates st p). id' a \<notin> set (map id' (addresses st))"
    by simp_all
  have "set (map id' (addresses st)) \<inter> set (map id' (load_candidates st p)) = {}"
  proof (rule ccontr)
    assume "set (map id' (addresses st)) \<inter> set (map id' (load_candidates st p)) \<noteq> {}"
    then obtain v where v1: "v \<in> set (map id' (addresses st))"
      and v2: "v \<in> set (map id' (load_candidates st p))"
      by blast
    from v2 obtain a where "a \<in> set (load_candidates st p)" and "v = id' a"
      by auto
    with g v1 show False by blast
  qed
  with assms(1) f have "distinct (map id' (addresses st @ load_candidates st p))"
    by simp
  with assms(1) Load loadKeypairs_addresses [of lib p st] show ?thesis
    by auto
qed

text \<open>
  What the code does keep. The id of a new record is the reading of the clock in
  milliseconds, and a backup brings its own ids. The ids of the book stay different from
  each other through every sequence of operations in which each creation reads a clock
  value that is no id of the book, and each backup adds records whose ids differ from each
  other and from those of the book: deleting, toggling, refreshing, the faucet, the
  transfer and the edits of the forms never change an id.
\<close>

lemma ids_unique_when_fresh:
  assumes "distinct (map id' (addresses st))" and "ids_stay_fresh lib lg ops st"
  shows "distinct (map id' (addresses (run lib lg ops st)))"
  using assms
proof (induction ops arbitrary: st)
  case Nil
  then show ?case by simp
next
  case (Cons x xs)
  then show ?case using apply_operation_distinct by simp
qed

lemma truthy_defined: "truthy v \<Longrightarrow> v \<noteq> Undefined \<and> v \<noteq> Null"
  by (cases v) auto

lemma apply_operation_ids_defined:
  assumes "ids_defined st"
  shows "ids_defined (apply_operation lib lg x st)"
proof -
  have m: "ids_defined st'" if "map id' (addresses st') = map id' (addresses st)" for st'
  proof -
    have "list_all (\<lambda>v. v \<noteq> Undefined \<and> v \<noteq> Null) (map id' (addresses st'))"
      using assms unfolding that ids_defined_def by (simp add: list_all_iff)
    then show ?thesis by (simp add: ids_defined_def list_all_iff)
  qed
  show ?thesis
  proof (cases x)
    case (Create pk sk now)
    with assms show ?thesis by (simp add: createSolanaAddress_def ids_defined_def)
  next
    case (Delete i)
    with assms show ?thesis by (simp add: deleteAddress_def ids_defined_def list_all_iff)
  next
    case (Toggle i)
    then show ?thesis by (simp add: m togglePrivateKey_ids)
  next
    case (Refresh i)
    then show ?thesis by (simp add: m refreshBalance_ids)
  next
    case (Airdrop i)
    with assms show ?thesis
      by (cases "snd (requestAirdrop lib lg i st)") (auto dest: requestAirdrop_ids intro: m)
  next
    case (SetFaucetAmount v)
    with assms show ?thesis by (simp add: ids_defined_def)
  next
    case (SetTransferData f)
    with assms show ?thesis by (simp add: ids_defined_def)
  next
    case Transfer
    then show ?thesis by (simp add: m transferSOL_ids)
  next
    case (Load p)
    with assms loadKeypairs_addresses [of lib p st] show ?thesis
      by (auto simp: ids_defined_def list_all_iff dest: truthy_defined)
  qed
qed

lemma ids_defined_run: "ids_defined st \<Longrightarrow> ids_defined (run lib lg ops st)"
  by (induction ops arbitrary: st) (simp_all add: apply_operation_ids_defined)

lemma ids_defined_initial: "ids_defined (run lib lg ops initial_state)"
  by (rule ids_defined_run) (simp add: ids_defined_def initial_state_def)

text \<open>
  Two creations one millisecond apart, the removal of the first record, and a backup that
  brings it back.
\<close>

lemma ids_unique_when_fresh_example:
  "distinct (map id' (addresses initial_state))
   \<and> ids_stay_fresh test_library ledger_down
        [Create address_A secret_A 1730617200000, Create address_B secret_B 1730617200001,
         Delete (Number (Fin 1730617200000)), Load (Array [ObjectEntry (record_A 0)])]
        initial_state
   \<and> distinct (map id' (addresses (run test_library ledger_down
        [Create address_A secret_A 1730617200000, Create address_B secret_B 1730617200001,
         Delete (Number (Fin 1730617200000)), Load (Array [ObjectEntry (record_A 0)])]
        initial_state)))
   \<and> map id' (addresses (run test_library ledger_down
        [Create address_A secret_A 1730617200000, Create address_B secret_B 1730617200001,
         Delete (Number (Fin 1730617200000)), Load (Array [ObjectEntry (record_A 0)])]
        initial_state))
     = [Number (Fin 1730617200001), Number (Fin 1730617200000)]"
proof -
  have a: "distinct (map id' (addresses initial_state))"
    by (simp add: initial_state_def)
  have b: "ids_stay_fresh test_library ledger_down
        [Create address_A secret_A 1730617200000, Create address_B secret_B 1730617200001,
         Delete (Number (Fin 1730617200000)), Load (Array [ObjectEntry (record_A 0)])]
        initial_state"
    by (simp add: initial_state_def createSolanaAddress_def deleteAddress_def strict_eq_def
          load_candidates_def loadKeypairs_def merge_addresses_def test_defs)
  have c: "map id' (addresses (run test_library ledger_down
        [Create address_A secret_A 1730617200000, Create address_B secret_B 1730617200001,
         Delete (Number (Fin 1730617200000)), Load (Array [ObjectEntry (record_A 0)])]
        initial_state))
     = [Number (Fin 1730617200001), Number (Fin 1730617200000)]"
    by (simp add: initial_state_def createSolanaAddress_def deleteAddress_def strict_eq_def
          load_candidates_def loadKeypairs_def merge_addresses_def test_defs)
  show ?thesis
    using ids_unique_when_fresh [OF a b] a b c by blast
qed

text \<open>
  Claim C9. The ids of the book are not always different from each other: two creations
  in immediate succession, within the same millisecond, read the same clock value and get
  the same id. The component uses the id as the key of a record, so the two records are no
  longer told apart: deleting one of them deletes both.
\<close>

theorem same_millisecond_ids_collide:
  "map id' (addresses (run test_library ledger_down
        [Create address_A secret_A 1730617200000, Create address_B secret_B 1730617200000]
        initial_state))
     = [Number (Fin 1730617200000), Number (Fin 1730617200000)]
   \<and> \<not> distinct (map id' (addresses (run test_library ledger_down
        [Create address_A secret_A 1730617200000, Create address_B secret_B 1730617200000]
        initial_state)))
   \<and> map publicKey (addresses (run test_library ledger_down
        [Create address_A secret_A 1730617200000, Create address_B secret_B 1730617200000]
        initial_state))
     = [String address_A, String address_B]
   \<and> addresses (run test_library ledger_down
        [Create address_A secret_A 1730617200000, Create address_B secret_B 1730617200000,
         Delete (Number (Fin 1730617200000))]
        initial_state)
     = []"
  by (simp add: initial_state_def createSolanaAddress_def deleteAddress_def strict_eq_def)

end
